theory Spec2Isabelle
  imports Main "HOL-Library.Word"
begin

section \<open>JavaScript values\<close>

text \<open>
  The emulator in \<^verbatim>\<open>src/shims/XMLHttpRequest.js\<close> stores untyped JavaScript values in
  its settings and header tables and decides several branches on their truthiness
  (\<^verbatim>\<open>user || null\<close>, \<^verbatim>\<open>url.port || (ssl ? 443 : 80)\<close>, \<^verbatim>\<open>if (chunk)\<close>) or on strict
  equality (\<^verbatim>\<open>port === 443\<close>). The values that occur are modelled by one datatype.
  Strings are lists of 8-bit characters, the UTF-8 form of the JavaScript string. Numbers
  are the safe integers, from \<open>- 2 ^ 53\<close> to \<open>2 ^ 53 - 1\<close>, as a 54-bit word read in
  two's complement: each of them is a JavaScript number of its own, and JavaScript prints
  it with all its decimal digits. Fractions and larger numbers are outside the model.
\<close>

datatype jsval = JUndefined | JNull | JBool bool | JNum "54 word" | JStr string

fun truthy :: "jsval \<Rightarrow> bool" where
  "truthy JUndefined = False"
| "truthy JNull = False"
| "truthy (JBool b) = b"
| "truthy (JNum n) = (n \<noteq> 0)"
| "truthy (JStr s) = (s \<noteq> [])"

definition js_or :: "jsval \<Rightarrow> jsval \<Rightarrow> jsval" where
  \<comment> \<open>\<^verbatim>\<open>a || b\<close>\<close>
  "js_or a b = (if truthy a then a else b)"

fun decimal :: "nat \<Rightarrow> string" where
  "decimal n = (if n < 10 then [''0123456789'' ! n]
                else decimal (n div 10) @ [''0123456789'' ! (n mod 10)])"

declare decimal.simps [simp del]

definition string_of_int :: "int \<Rightarrow> string" where
  "string_of_int i = (if i < 0 then CHR ''-'' # decimal (nat (- i)) else decimal (nat i))"

fun to_string :: "jsval \<Rightarrow> string" where
  \<comment> \<open>the conversion applied by \<^verbatim>\<open>+\<close> when the other operand is a string\<close>
  "to_string JUndefined = ''undefined''"
| "to_string JNull = ''null''"
| "to_string (JBool b) = (if b then ''true'' else ''false'')"
| "to_string (JNum n) = string_of_int (sint n)"
| "to_string (JStr s) = s"

definition lower_char :: "char \<Rightarrow> char" where
  "lower_char c =
     (case map_of (zip ''ABCDEFGHIJKLMNOPQRSTUVWXYZ'' ''abcdefghijklmnopqrstuvwxyz'') c of
        Some d \<Rightarrow> d
      | None \<Rightarrow> c)"

text \<open>
  \<^verbatim>\<open>String.prototype.toLowerCase\<close>. Two kinds of code point have a lower-case form in
  ASCII: the letters \<^verbatim>\<open>A\<close> to \<^verbatim>\<open>Z\<close>, and the Kelvin sign U+212A (in UTF-8 the bytes
  E2 84 AA), whose lower-case form is \<^verbatim>\<open>k\<close>. Both are mapped. The lower-case form of any
  other code point outside ASCII lies outside ASCII again; the bytes of such a code point
  are left as they are. The emulator only compares the result with the names of the
  forbidden list, which are ASCII, and that comparison comes out as in JavaScript.
\<close>

fun toLowerCase :: "string \<Rightarrow> string" where
  "toLowerCase (a # b # c # s) =
     (if a = CHR 0xE2 \<and> b = CHR 0x84 \<and> c = CHR 0xAA then CHR ''k'' # toLowerCase s
      else lower_char a # toLowerCase (b # c # s))"
| "toLowerCase (a # s) = lower_char a # toLowerCase s"
| "toLowerCase [] = []"

subsection \<open>Objects used as string-keyed tables\<close>

type_synonym table = "(string \<times> jsval) list"

text \<open>
  A table lists the own properties of an object in the order of their creation. \<open>tget\<close>
  reads an own property and \<open>tset\<close> creates or overwrites one. The source reads and
  writes the fixed keys \<^verbatim>\<open>Host\<close>, \<^verbatim>\<open>Authorization\<close>, \<^verbatim>\<open>Content-Length\<close>, \<^verbatim>\<open>Content-Type\<close>
  and \<^verbatim>\<open>location\<close>, which \<^verbatim>\<open>Object.prototype\<close> does not define, so that for them
  \<^verbatim>\<open>obj[k]\<close> and \<^verbatim>\<open>obj[k] = v\<close> are \<open>tget\<close> and \<open>tset\<close>. The one assignment under a key
  chosen by the caller, in \<^verbatim>\<open>setRequestHeader\<close>, is \<open>assign_header\<close> below.
\<close>

fun tget :: "table \<Rightarrow> string \<Rightarrow> jsval" where
  \<comment> \<open>an own property; a missing one reads as \<^verbatim>\<open>undefined\<close>\<close>
  "tget [] k = JUndefined"
| "tget ((k', v) # t) k = (if k' = k then v else tget t k)"

fun tset :: "table \<Rightarrow> string \<Rightarrow> jsval \<Rightarrow> table" where
  \<comment> \<open>an existing key keeps its position, a new key is appended\<close>
  "tset [] k v = [(k, v)]"
| "tset ((k', v') # t) k v = (if k' = k then (k, v) # t else (k', v') # tset t k v)"

section \<open>The emulator's data\<close>

record settings =
  "method" :: jsval
  url :: jsval
  async :: jsval
  user :: jsval
  password :: jsval

text \<open>
  \<^verbatim>\<open>Url.parse\<close> comes from \<^verbatim>\<open>./url\<close>, which is not part of the sources at hand; the
  functions below take it as the parameter \<open>parse\<close>. Its result is the object whose
  fields \<^verbatim>\<open>send\<close> and the response handler read.
\<close>

record parsed_url =
  protocol :: jsval
  hostname :: jsval
  port :: jsval
  pathname :: string
  search :: jsval
  hash :: jsval
  path :: jsval

text \<open>
  The options object handed to the transport. The first request fills every field, the
  request that follows a redirect only hostname, port, path, method and headers; a field
  that is not set reads as \<^verbatim>\<open>undefined\<close>. The seven TLS fields copied from the constructor
  options when \<^verbatim>\<open>ssl\<close> holds are summarised by \<open>o_tls\<close>; the \<^verbatim>\<open>agent\<close> is left out.
  The header table is handed over by reference; the record keeps its content at the
  time of the call.
\<close>

record options =
  o_protocol :: jsval
  o_hostname :: jsval
  o_port :: jsval
  o_path :: jsval
  o_pathname :: jsval
  o_search :: jsval
  o_hash :: jsval
  o_method :: jsval
  o_headers :: table
  o_tls :: bool

record response =
  statusCode :: int
  r_headers :: table

record js_error =
  message :: string
  stack :: jsval

text \<open>What the emulator does to the transport: every call is appended to a log.\<close>

datatype transport_call =
  TRequest options
| TWrite nat string
| TEnd nat
| TAbort nat

text \<open>
  Everything the emulator does to the outside in the order in which it does it: an event
  it dispatches (with the \<^verbatim>\<open>readyState\<close> a listener would read at that moment) or a call
  of the transport.
\<close>

datatype effect =
  Dispatch string nat
| Call transport_call

text \<open>
  The private variables and public fields of one \<^verbatim>\<open>XMLHttpRequest\<close> object, followed by
  four logs of what it does to the outside: the events it dispatches, the transport
  calls, both of them once more in \<open>effects\<close> in their common order, and the console
  warnings. Listeners are observers: they do not call back into the object.
  \<open>headers_plain\<close> tells whether the \<^verbatim>\<open>headers\<close> object still has \<^verbatim>\<open>Object.prototype\<close>
  as its prototype; \<^verbatim>\<open>status\<close> is \<^verbatim>\<open>null\<close> (\<open>None\<close>) or a status code.
\<close>

record xhr =
  request :: "nat option"
  response :: "response option"
  settings :: settings
  disableHeaderCheck :: jsval
  headers :: table
  headers_plain :: bool
  sendFlag :: bool
  errorFlag :: bool
  readyState :: nat
  responseText :: jsval
  responseXML :: string
  status :: "int option"
  statusText :: "js_error option"
  events :: "(string \<times> nat) list"
  transport :: "transport_call list"
  effects :: "effect list"
  warnings :: "string list"

abbreviation UNSENT :: nat where "UNSENT \<equiv> 0"
abbreviation OPENED :: nat where "OPENED \<equiv> 1"
abbreviation HEADERS_RECEIVED :: nat where "HEADERS_RECEIVED \<equiv> 2"
abbreviation LOADING :: nat where "LOADING \<equiv> 3"
abbreviation DONE :: nat where "DONE \<equiv> 4"

definition defaultHeaders :: table where
  "defaultHeaders = [(''User-Agent'', JStr ''node-XMLHttpRequest''), (''Accept'', JStr ''*/*'')]"

definition forbiddenRequestHeaders :: "string list" where
  "forbiddenRequestHeaders =
     [''accept-charset'', ''accept-encoding'', ''access-control-request-headers'',
      ''access-control-request-method'', ''connection'', ''content-length'',
      ''content-transfer-encoding'', ''cookie'', ''cookie2'', ''date'', ''expect'', ''host'',
      ''keep-alive'', ''origin'', ''referer'', ''te'', ''trailer'', ''transfer-encoding'',
      ''upgrade'', ''via'']"

definition forbiddenRequestMethods :: "string list" where
  "forbiddenRequestMethods = [''TRACE'', ''TRACK'', ''CONNECT'']"

definition new_xhr :: xhr where
  \<comment> \<open>the object as the constructor leaves it\<close>
  "new_xhr =
     \<lparr>request = None, response = None,
      settings = \<lparr>method = JUndefined, url = JUndefined, async = JUndefined,
                  user = JUndefined, password = JUndefined\<rparr>,
      disableHeaderCheck = JBool False, headers = defaultHeaders, headers_plain = True,
      sendFlag = False, errorFlag = False, readyState = UNSENT,
      responseText = JStr [], responseXML = [], status = None, statusText = None,
      events = [], transport = [], effects = [], warnings = []\<rparr>"

text \<open>A call either returns a value or throws; the object keeps what was written before.\<close>

datatype 'a outcome = Return 'a | Throw string

section \<open>Private methods\<close>

definition isAllowedHttpHeader :: "xhr \<Rightarrow> string \<Rightarrow> bool" where
  "isAllowedHttpHeader s header \<longleftrightarrow>
     truthy (disableHeaderCheck s)
     \<or> (header \<noteq> [] \<and> toLowerCase header \<notin> set forbiddenRequestHeaders)"

definition isAllowedHttpMethod :: "jsval \<Rightarrow> bool" where
  "isAllowedHttpMethod m \<longleftrightarrow> truthy m \<and> m \<notin> set (map JStr forbiddenRequestMethods)"

definition dispatchEvent :: "xhr \<Rightarrow> string \<Rightarrow> xhr" where
  "dispatchEvent s event =
     s\<lparr>events := events s @ [(event, readyState s)],
       effects := effects s @ [Dispatch event (readyState s)]\<rparr>"

definition transport_call :: "xhr \<Rightarrow> transport_call \<Rightarrow> xhr" where
  \<comment> \<open>one call of the transport, written to both logs\<close>
  "transport_call s c = s\<lparr>transport := transport s @ [c], effects := effects s @ [Call c]\<rparr>"

definition setState :: "xhr \<Rightarrow> nat \<Rightarrow> xhr" where
  "setState s state =
     (if readyState s \<noteq> state then
        let s1 = s\<lparr>readyState := state\<rparr>;
            s2 = (if truthy (async (settings s1)) \<or> readyState s1 < OPENED \<or> readyState s1 = DONE
                  then dispatchEvent s1 ''readystatechange'' else s1)
        in if readyState s2 = DONE \<and> \<not> errorFlag s2
           then dispatchEvent (dispatchEvent s2 ''load'') ''loadend''
           else s2
      else s)"

section \<open>Public methods\<close>

definition abort :: "xhr \<Rightarrow> xhr" where
  "abort s =
     (let s1 = (case request s of
                  Some r \<Rightarrow> (transport_call s (TAbort r))\<lparr>request := None\<rparr>
                | None \<Rightarrow> s);
          s2 = s1\<lparr>headers := defaultHeaders, headers_plain := True, responseText := JStr [],
                  responseXML := [], errorFlag := True\<rparr>;
          s3 = (if readyState s2 \<noteq> UNSENT
                   \<and> (readyState s2 \<noteq> OPENED \<or> sendFlag s2)
                   \<and> readyState s2 \<noteq> DONE
                then setState (s2\<lparr>sendFlag := False\<rparr>) DONE
                else s2)
      in s3\<lparr>readyState := UNSENT\<rparr>)"

definition "open" :: "xhr \<Rightarrow> jsval \<Rightarrow> jsval \<Rightarrow> jsval \<Rightarrow> jsval \<Rightarrow> jsval \<Rightarrow> unit outcome \<times> xhr" where
  "open s m u a usr pw =
     (let s1 = (abort s)\<lparr>errorFlag := False\<rparr> in
      if \<not> isAllowedHttpMethod m then
        (Throw ''SecurityError: Request method not allowed'', s1)
      else if u = JUndefined \<or> u = JNull then
        (Throw ''TypeError'', s1)
      else
        (Return (),
         setState
           (s1\<lparr>settings :=
                 \<lparr>method = m,
                  url = JStr (to_string u),
                  async = (case a of JBool b \<Rightarrow> JBool b | _ \<Rightarrow> JBool True),
                  user = js_or usr JNull,
                  password = js_or pw JNull\<rparr>\<rparr>)
           OPENED))"

definition setDisableHeaderCheck :: "xhr \<Rightarrow> jsval \<Rightarrow> xhr" where
  "setDisableHeaderCheck s state = s\<lparr>disableHeaderCheck := state\<rparr>"

text \<open>
  \<^verbatim>\<open>headers[header] = value\<close> for a key of the caller's choice. Every key but
  \<^verbatim>\<open>__proto__\<close> creates or overwrites an own property. Under \<^verbatim>\<open>__proto__\<close> the object
  inherits a setter from \<^verbatim>\<open>Object.prototype\<close>: it stores nothing, and for the value
  \<^verbatim>\<open>null\<close> it takes away the object's prototype; after that \<^verbatim>\<open>__proto__\<close> is a key as
  any other.
\<close>

definition assign_header :: "xhr \<Rightarrow> string \<Rightarrow> jsval \<Rightarrow> xhr" where
  "assign_header s k v =
     (if k = ''__proto__'' \<and> headers_plain s
      then (if v = JNull then s\<lparr>headers_plain := False\<rparr> else s)
      else s\<lparr>headers := tset (headers s) k v\<rparr>)"

definition setRequestHeader :: "xhr \<Rightarrow> string \<Rightarrow> jsval \<Rightarrow> jsval outcome \<times> xhr" where
  "setRequestHeader s header v =
     (if readyState s \<noteq> OPENED then
        (Throw ''INVALID_STATE_ERR: setRequestHeader can only be called when state is OPEN'', s)
      else if \<not> isAllowedHttpHeader s header then
        (Return (JBool False),
         s\<lparr>warnings := warnings s @ [''Refused to set unsafe header '' @ [CHR 0x22] @ header @ [CHR 0x22]]\<rparr>)
      else if sendFlag s then
        (Throw ''INVALID_STATE_ERR: send flag is true'', s)
      else
        (Return (JBool True), assign_header s header v))"

subsection \<open>send\<close>

text \<open>
  \<^verbatim>\<open>send\<close> is one long function; it is split here along its own comments. The
  \<^verbatim>\<open>switch\<close> on \<^verbatim>\<open>url.protocol\<close> yields the flags \<^verbatim>\<open>ssl\<close> and \<^verbatim>\<open>local\<close> and the local
  variable \<^verbatim>\<open>hostname\<close>, or throws.
\<close>

definition determine_server :: "parsed_url \<Rightarrow> string + (bool \<times> bool \<times> jsval)" where
  "determine_server u =
     (if protocol u = JStr ''https:'' then Inr (True, False, hostname u)
      else if protocol u = JStr ''http:'' then Inr (False, False, hostname u)
      else if protocol u = JStr ''file:'' then Inr (False, True, JUndefined)
      else if protocol u = JUndefined \<or> protocol u = JStr [] then Inr (False, False, JStr ''localhost'')
      else Inl ''Protocol not supported.'')"

definition effective_port :: "bool \<Rightarrow> parsed_url \<Rightarrow> jsval" where
  \<comment> \<open>\<^verbatim>\<open>var port = url.port || (ssl ? 443 : 80)\<close>\<close>
  "effective_port ssl u = js_or (port u) (JNum (if ssl then 443 else 80))"

definition host_header :: "bool \<Rightarrow> parsed_url \<Rightarrow> jsval" where
  \<comment> \<open>the value \<^verbatim>\<open>headers['Host']\<close> holds after lines 330 to 333\<close>
  "host_header ssl u =
     (if \<not> ((ssl \<and> effective_port ssl u = JNum 443) \<or> effective_port ssl u = JNum 80)
      then JStr (to_string (hostname u) @ '':'' @ to_string (port u))
      else hostname u)"

definition set_basic_auth :: "xhr \<Rightarrow> xhr" where
  \<comment> \<open>lines 336 to 341\<close>
  "set_basic_auth s =
     (if truthy (user (settings s)) then
        let s1 = (if password (settings s) = JUndefined
                  then s\<lparr>settings := (settings s)\<lparr>password := JStr []\<rparr>\<rparr> else s)
        in s1\<lparr>headers := tset (headers s1) ''Authorization''
                 (JStr (''Basic '' @ to_string (user (settings s1)) @ '':''
                        @ to_string (password (settings s1))))\<rparr>
      else s)"

text \<open>
  The body is a string or absent (\<open>None\<close>); \<^verbatim>\<open>Buffer.byteLength\<close> of a string of 8-bit
  characters is its length, which for a JavaScript string is a safe integer. The result
  is the object and the body that is left to write.
\<close>

definition set_content_length :: "xhr \<Rightarrow> string option \<Rightarrow> xhr \<times> string option" where
  \<comment> \<open>lines 344 to 356\<close>
  "set_content_length s data =
     (if method (settings s) = JStr ''GET'' \<or> method (settings s) = JStr ''HEAD'' then (s, None)
      else if data \<noteq> None \<and> data \<noteq> Some [] then
        let s1 = s\<lparr>headers := tset (headers s) ''Content-Length'' (JNum (of_nat (length (the data))))\<rparr>
        in (if \<not> truthy (tget (headers s1) ''Content-Type'')
            then s1\<lparr>headers := tset (headers s1) ''Content-Type'' (JStr ''text/plain;charset=UTF-8'')\<rparr>
            else s1, data)
      else if method (settings s) = JStr ''POST'' then
        (s\<lparr>headers := tset (headers s) ''Content-Length'' (JNum 0)\<rparr>, data)
      else (s, data))"

definition request_options :: "bool \<Rightarrow> jsval \<Rightarrow> parsed_url \<Rightarrow> xhr \<Rightarrow> options" where
  \<comment> \<open>lines 359 to 380\<close>
  "request_options ssl host u s =
     \<lparr>o_protocol = protocol u, o_hostname = host, o_port = effective_port ssl u,
      o_path = JStr (pathname u @ (if truthy (search u) then to_string (search u) else [])),
      o_pathname = JStr (pathname u), o_search = search u, o_hash = hash u,
      o_method = method (settings s), o_headers = headers s, o_tls = ssl\<rparr>"

definition doRequest :: "xhr \<Rightarrow> options \<Rightarrow> xhr" where
  \<comment> \<open>\<^verbatim>\<open>request = doRequest(options, responseHandler).on('error', errorHandler)\<close>\<close>
  "doRequest s opts = (transport_call s (TRequest opts))\<lparr>request := Some (length (transport s))\<rparr>"

definition request_write :: "xhr \<Rightarrow> string \<Rightarrow> xhr" where
  "request_write s d =
     (case request s of Some r \<Rightarrow> transport_call s (TWrite r d) | None \<Rightarrow> s)"

definition request_end :: "xhr \<Rightarrow> xhr" where
  "request_end s =
     (case request s of Some r \<Rightarrow> transport_call s (TEnd r) | None \<Rightarrow> s)"

definition send :: "(jsval \<Rightarrow> parsed_url) \<Rightarrow> xhr \<Rightarrow> string option \<Rightarrow> unit outcome \<times> xhr" where
  "send parse s data =
     (if readyState s \<noteq> OPENED then
        (Throw ''INVALID_STATE_ERR: connection must be opened before send() is called'', s)
      else if sendFlag s then
        (Throw ''INVALID_STATE_ERR: send has already been called'', s)
      else
        let u = parse (url (settings s)) in
        case determine_server u of
          Inl e \<Rightarrow> (Throw e, s)
        | Inr (ssl, local, host) \<Rightarrow>
            if local then
              (Throw (''The '' @ [CHR 0x22] @ ''local'' @ [CHR 0x22] @ '' option is not supported on TItanium.''), s)
            else
              let s1 = s\<lparr>headers := tset (headers s) ''Host'' (host_header ssl u)\<rparr>;
                  s2 = set_basic_auth s1;
                  (s3, data') = set_content_length s2 data;
                  opts = request_options ssl host u s3;
                  s4 = s3\<lparr>errorFlag := False\<rparr>
              in if truthy (async (settings s4)) then
                   let s5 = dispatchEvent (s4\<lparr>sendFlag := True\<rparr>) ''readystatechange'';
                       s6 = doRequest s5 opts;
                       s7 = (if data' \<noteq> None \<and> data' \<noteq> Some [] then request_write s6 (the data') else s6);
                       s8 = request_end s7
                   in (Return (), dispatchEvent s8 ''loadstart'')
                 else
                   (Throw ''Synchronous requests are not supported in Titanium.'', s4))"

subsection \<open>Transport callbacks\<close>

text \<open>
  \<^verbatim>\<open>responseHandler\<close> is a closure created by \<^verbatim>\<open>send\<close>; it captures that call's
  \<^verbatim>\<open>ssl\<close>, which is a parameter here. The transport invokes it with the response, then
  the \<^verbatim>\<open>data\<close>, \<^verbatim>\<open>end\<close> and \<^verbatim>\<open>error\<close> callbacks it registers.
\<close>

definition is_redirect :: "int \<Rightarrow> bool" where
  "is_redirect c \<longleftrightarrow> c = 302 \<or> c = 303 \<or> c = 307"

definition redirect_options :: "bool \<Rightarrow> parsed_url \<Rightarrow> int \<Rightarrow> xhr \<Rightarrow> options" where
  \<comment> \<open>\<^verbatim>\<open>newOptions\<close>, lines 408 to 424\<close>
  "redirect_options ssl u c s =
     \<lparr>o_protocol = JUndefined, o_hostname = hostname u, o_port = port u, o_path = path u,
      o_pathname = JUndefined, o_search = JUndefined, o_hash = JUndefined,
      o_method = (if c = 303 then JStr ''GET'' else method (settings s)),
      o_headers = headers s, o_tls = ssl\<rparr>"

definition responseHandler :: "(jsval \<Rightarrow> parsed_url) \<Rightarrow> bool \<Rightarrow> xhr \<Rightarrow> response \<Rightarrow> xhr" where
  "responseHandler parse ssl s resp =
     (let s1 = s\<lparr>response := Some resp\<rparr> in
      if is_redirect (statusCode resp) then
        let s2 = s1\<lparr>settings := (settings s1)\<lparr>url := tget (r_headers resp) ''location''\<rparr>\<rparr>;
            u = parse (url (settings s2))
        in request_end (doRequest s2 (redirect_options ssl u (statusCode resp) s2))
      else
        (setState s1 HEADERS_RECEIVED)\<lparr>status := Some (statusCode resp)\<rparr>)"

definition on_data :: "xhr \<Rightarrow> string \<Rightarrow> xhr" where
  \<comment> \<open>the \<^verbatim>\<open>data\<close> callback, lines 440 to 449\<close>
  "on_data s chunk =
     (let s1 = (if chunk \<noteq> [] then s\<lparr>responseText := JStr (to_string (responseText s) @ chunk)\<rparr>
                else s)
      in if sendFlag s1 then setState s1 LOADING else s1)"

definition on_end :: "xhr \<Rightarrow> xhr" where
  \<comment> \<open>the \<^verbatim>\<open>end\<close> callback, lines 451 to 459\<close>
  "on_end s = (if sendFlag s then setState (s\<lparr>sendFlag := False\<rparr>) DONE else s)"

definition handleError :: "xhr \<Rightarrow> js_error \<Rightarrow> xhr" where
  "handleError s error =
     setState (s\<lparr>status := Some 503, statusText := Some error, responseText := stack error,
                 errorFlag := True\<rparr>) DONE"

section \<open>Running a sequence of calls\<close>

text \<open>
  A trace is a list of calls on one object, made by the caller (the public methods) or by
  the transport (the callbacks). \<open>exec\<close> performs one call and keeps the object; a thrown
  error is dropped, as when the caller catches it.
\<close>

datatype call =
  Open jsval jsval jsval jsval jsval
| SetDisableHeaderCheck jsval
| SetRequestHeader string jsval
| Send "string option"
| Abort
| OnResponse bool response
| OnData string
| OnEnd
| OnError js_error

fun exec :: "(jsval \<Rightarrow> parsed_url) \<Rightarrow> xhr \<Rightarrow> call \<Rightarrow> xhr" where
  "exec parse s (Open m u a usr pw) = snd (open s m u a usr pw)"
| "exec parse s (SetDisableHeaderCheck b) = setDisableHeaderCheck s b"
| "exec parse s (SetRequestHeader h v) = snd (setRequestHeader s h v)"
| "exec parse s (Send d) = snd (send parse s d)"
| "exec parse s Abort = abort s"
| "exec parse s (OnResponse ssl r) = responseHandler parse ssl s r"
| "exec parse s (OnData c) = on_data s c"
| "exec parse s OnEnd = on_end s"
| "exec parse s (OnError e) = handleError s e"

definition run :: "(jsval \<Rightarrow> parsed_url) \<Rightarrow> xhr \<Rightarrow> call list \<Rightarrow> xhr" where
  "run parse s cs = foldl (exec parse) s cs"

section \<open>Auxiliary definitions for the statements\<close>

text \<open>
  \<open>send_prepared\<close> is the object as \<^verbatim>\<open>send\<close> leaves it at line 383, after the
  \<^verbatim>\<open>Host\<close>, \<^verbatim>\<open>Authorization\<close> and content headers are written and the error flag is
  reset, before the asynchronous branch. \<open>fired\<close> counts how often an event was
  dispatched. \<open>example_parse\<close> is a resolver that knows two URLs: it answers
  \<^verbatim>\<open>http://h/b\<close> with the parts of that URL and every other input with the parts of
  \<^verbatim>\<open>http://h/a\<close>; it serves the concrete traces below.
\<close>

definition send_prepared :: "bool \<Rightarrow> parsed_url \<Rightarrow> xhr \<Rightarrow> string option \<Rightarrow> xhr" where
  "send_prepared ssl u s d =
     (fst (set_content_length
             (set_basic_auth (s\<lparr>headers := tset (headers s) ''Host'' (host_header ssl u)\<rparr>)) d))
       \<lparr>errorFlag := False\<rparr>"

text \<open>
  The two logs \<open>events\<close> and \<open>transport\<close> are the two projections of \<open>effects\<close>; an
  object is coherent when its three logs agree in this way.
\<close>

fun dispatched :: "effect list \<Rightarrow> (string \<times> nat) list" where
  "dispatched [] = []"
| "dispatched (Dispatch e n # xs) = (e, n) # dispatched xs"
| "dispatched (Call c # xs) = dispatched xs"

fun called :: "effect list \<Rightarrow> transport_call list" where
  "called [] = []"
| "called (Dispatch e n # xs) = called xs"
| "called (Call c # xs) = c # called xs"

definition coherent :: "xhr \<Rightarrow> bool" where
  "coherent s \<longleftrightarrow> events s = dispatched (effects s) \<and> transport s = called (effects s)"

definition fired :: "string \<Rightarrow> xhr \<Rightarrow> nat" where
  "fired event s = length (filter (\<lambda>e. fst e = event) (events s))"

definition example_parse :: "jsval \<Rightarrow> parsed_url" where
  "example_parse v =
     \<lparr>protocol = JStr ''http:'', hostname = JStr ''h'', port = JNull,
      pathname = (if v = JStr ''http://h/b'' then ''/b'' else ''/a''),
      search = JNull, hash = JNull,
      path = JStr (if v = JStr ''http://h/b'' then ''/b'' else ''/a'')\<rparr>"

text \<open>
  Two more resolvers, which answer with scheme \<^verbatim>\<open>http:\<close> and the string \<^verbatim>\<open>8080\<close> or
  \<^verbatim>\<open>80\<close> as port.
\<close>

definition port8080_parse :: "jsval \<Rightarrow> parsed_url" where
  "port8080_parse v =
     \<lparr>protocol = JStr ''http:'', hostname = JStr ''h'', port = JStr ''8080'', pathname = ''/a'',
      search = JNull, hash = JNull, path = JStr ''/a''\<rparr>"

definition port80_parse :: "jsval \<Rightarrow> parsed_url" where
  "port80_parse v =
     \<lparr>protocol = JStr ''http:'', hostname = JStr ''h'', port = JStr ''80'', pathname = ''/a'',
      search = JNull, hash = JNull, path = JStr ''/a''\<rparr>"

text \<open>Fixtures: calls, responses, an error, and the object at the end of some traces.\<close>

definition example_open :: call where
  "example_open = Open (JStr ''GET'') (JStr ''http://h/a'') JUndefined JUndefined JUndefined"

definition ok_response :: response where
  "ok_response = \<lparr>statusCode = 200, r_headers = []\<rparr>"

definition found_response :: response where
  "found_response = \<lparr>statusCode = 302, r_headers = [(''location'', JStr ''http://h/b'')]\<rparr>"

definition example_error :: js_error where
  "example_error = \<lparr>message = ''connect ECONNREFUSED'', stack = JStr ''Error: connect ECONNREFUSED''\<rparr>"

definition opened_exchange :: xhr where
  "opened_exchange = run example_parse new_xhr [example_open]"

definition sending_exchange :: xhr where
  "sending_exchange = run example_parse new_xhr [example_open, Send None]"

definition post_exchange :: xhr where
  "post_exchange =
     run example_parse new_xhr
       [Open (JStr ''POST'') (JStr ''http://h/a'') JUndefined JUndefined JUndefined, Send None]"

definition aborted_exchange :: xhr where
  "aborted_exchange =
     run example_parse new_xhr [example_open, Send None, OnResponse False ok_response, Abort]"

definition finished_exchange :: xhr where
  "finished_exchange =
     run example_parse new_xhr
       [example_open, Send None, OnResponse False ok_response, OnData ''ab'', OnData ''cd'', OnEnd]"

definition failed_exchange :: xhr where
  "failed_exchange = run example_parse new_xhr [example_open, Send None, OnError example_error]"

definition reopened_exchange :: xhr where
  "reopened_exchange = run example_parse failed_exchange [example_open]"

definition redirected_exchange :: xhr where
  "redirected_exchange =
     run example_parse new_xhr [example_open, Send None, OnResponse False found_response]"

definition sync_reopened :: xhr where
  "sync_reopened =
     run example_parse failed_exchange
       [Open (JStr ''GET'') (JStr ''http://h/a'') (JBool False) JUndefined JUndefined]"

definition sync_opened :: xhr where
  "sync_opened =
     run example_parse new_xhr
       [Open (JStr ''GET'') (JStr ''http://h/a'') (JBool False) JUndefined JUndefined]"

definition auth_opened :: xhr where
  "auth_opened =
     run example_parse new_xhr
       [Open (JStr ''GET'') (JStr ''http://h/a'') JUndefined (JStr ''bob'') JUndefined]"

section \<open>Frame lemmas\<close>

lemma tget_tset: "tget (tset t k v) k' = (if k = k' then v else tget t k')"
  by (induction t) auto

lemma setState_fields:
  "readyState (setState s n) = n"
  "settings (setState s n) = settings s"
  "sendFlag (setState s n) = sendFlag s"
  "errorFlag (setState s n) = errorFlag s"
  "headers (setState s n) = headers s"
  "responseText (setState s n) = responseText s"
  "transport (setState s n) = transport s"
  "request (setState s n) = request s"
  "warnings (setState s n) = warnings s"
  "disableHeaderCheck (setState s n) = disableHeaderCheck s"
  by (simp_all add: setState_def dispatchEvent_def Let_def)

lemma setState_events:
  "events (setState s n) =
     events s @ (if readyState s = n then []
                 else (if truthy (async (settings s)) \<or> n < OPENED \<or> n = DONE
                       then [(''readystatechange'', n)] else [])
                      @ (if n = DONE \<and> \<not> errorFlag s then [(''load'', n), (''loadend'', n)] else []))"
  by (simp add: setState_def dispatchEvent_def Let_def)

lemma setState_same: "readyState s = n \<Longrightarrow> setState s n = s"
  by (simp add: setState_def)

lemma abort_fields:
  "readyState (abort s) = UNSENT"
  "settings (abort s) = settings s"
  "headers (abort s) = defaultHeaders"
  "responseText (abort s) = JStr []"
  "errorFlag (abort s) = True"
  "disableHeaderCheck (abort s) = disableHeaderCheck s"
  "request (abort s) = None"
  by (simp_all add: abort_def transport_call_def Let_def setState_fields split: option.splits)

lemma abort_sendFlag:
  "sendFlag (abort s) = (sendFlag s \<and> (readyState s = UNSENT \<or> readyState s = DONE))"
  by (auto simp add: abort_def transport_call_def Let_def setState_fields split: option.splits)

lemma open_Return:
  assumes "open s m u a usr pw = (Return (), s1)"
  shows "readyState s1 = OPENED"
    and "settings s1 = \<lparr>method = m, url = JStr (to_string u),
                  async = (case a of JBool b \<Rightarrow> JBool b | _ \<Rightarrow> JBool True),
                  user = js_or usr JNull, password = js_or pw JNull\<rparr>"
    and "sendFlag s1 = sendFlag (abort s)"
    and "errorFlag s1 = False"
    and "responseText s1 = JStr []"
    and "headers s1 = defaultHeaders"
    and "isAllowedHttpMethod m" and "u \<noteq> JUndefined" and "u \<noteq> JNull"
  using assms
  by (auto simp add: open_def Let_def setState_fields abort_fields split: if_splits)


lemma set_basic_auth_fields:
  "readyState (set_basic_auth s) = readyState s"
  "sendFlag (set_basic_auth s) = sendFlag s"
  "errorFlag (set_basic_auth s) = errorFlag s"
  "events (set_basic_auth s) = events s"
  "transport (set_basic_auth s) = transport s"
  "responseText (set_basic_auth s) = responseText s"
  "request (set_basic_auth s) = request s"
  "method (settings (set_basic_auth s)) = method (settings s)"
  "url (settings (set_basic_auth s)) = url (settings s)"
  "async (settings (set_basic_auth s)) = async (settings s)"
  "user (settings (set_basic_auth s)) = user (settings s)"
  by (simp_all add: set_basic_auth_def Let_def)

lemma set_basic_auth_settings:
  "password (settings s) \<noteq> JUndefined \<Longrightarrow> settings (set_basic_auth s) = settings s"
  by (simp add: set_basic_auth_def Let_def)

lemma set_basic_auth_password:
  "password (settings (set_basic_auth s)) = JUndefined \<longleftrightarrow> password (settings s) = JUndefined \<and> \<not> truthy (user (settings s))"
  by (simp add: set_basic_auth_def Let_def)

lemma set_basic_auth_Host:
  "tget (headers (set_basic_auth s)) ''Host'' = tget (headers s) ''Host''"
  by (simp add: set_basic_auth_def Let_def tget_tset)

lemma set_content_length_fields:
  "readyState (fst (set_content_length s d)) = readyState s"
  "sendFlag (fst (set_content_length s d)) = sendFlag s"
  "errorFlag (fst (set_content_length s d)) = errorFlag s"
  "events (fst (set_content_length s d)) = events s"
  "transport (fst (set_content_length s d)) = transport s"
  "responseText (fst (set_content_length s d)) = responseText s"
  "request (fst (set_content_length s d)) = request s"
  "settings (fst (set_content_length s d)) = settings s"
  by (simp_all add: set_content_length_def Let_def)

lemma set_content_length_header:
  "k \<noteq> ''Content-Length'' \<Longrightarrow> k \<noteq> ''Content-Type'' \<Longrightarrow>
   tget (headers (fst (set_content_length s d))) k = tget (headers s) k"
  by (simp add: set_content_length_def Let_def tget_tset)

lemma set_basic_auth_other:
  "settings (set_basic_auth (s\<lparr>headers := h\<rparr>)) = settings (set_basic_auth s)"
  by (simp add: set_basic_auth_def Let_def)

lemma send_sync:
  assumes "readyState s = OPENED" "\<not> sendFlag s"
    and "determine_server (parse (url (settings s))) = Inr (ssl, False, host)"
    and "\<not> truthy (async (settings s))"
  shows "send parse s d = (Throw ''Synchronous requests are not supported in Titanium.'',
            send_prepared ssl (parse (url (settings s))) s d)"
  using assms
  by (simp add: send_def send_prepared_def Let_def case_prod_beta set_basic_auth_fields set_content_length_fields)

lemma send_async:
  assumes "readyState s = OPENED" "\<not> sendFlag s"
    and "determine_server (parse (url (settings s))) = Inr (ssl, False, host)"
    and "truthy (async (settings s))"
  shows "fst (send parse s d) = Return ()"
    and "sendFlag (snd (send parse s d))"
    and "readyState (snd (send parse s d)) = OPENED"
    and "\<not> errorFlag (snd (send parse s d))"
    and "events (snd (send parse s d)) = events s @ [(''readystatechange'', OPENED), (''loadstart'', OPENED)]"
    and "responseText (snd (send parse s d)) = responseText s"
    and "settings (snd (send parse s d)) = settings (set_basic_auth s)"
    and "headers (snd (send parse s d)) = headers (send_prepared ssl (parse (url (settings s))) s d)"
    and "\<exists>rest. transport (snd (send parse s d)) = transport s @
            TRequest (request_options ssl host (parse (url (settings s)))
                        (send_prepared ssl (parse (url (settings s))) s d)) # rest"
  using assms
  by (simp_all add: send_def send_prepared_def Let_def case_prod_beta dispatchEvent_def doRequest_def transport_call_def
      request_end_def request_write_def request_options_def set_basic_auth_fields set_basic_auth_other set_content_length_fields)



lemma determine_server_supported:
  assumes "protocol u \<in> {JStr ''https:'', JStr ''http:'', JUndefined, JStr []}"
  shows "\<exists>host. determine_server u = Inr (protocol u = JStr ''https:'', False, host)"
  using assms by (auto simp add: determine_server_def)

lemma send_headers:
  assumes "readyState s = OPENED" "\<not> sendFlag s"
    and "protocol (parse (url (settings s))) \<in> {JStr ''https:'', JStr ''http:'', JUndefined, JStr []}"
  shows "headers (snd (send parse s d))
           = headers (send_prepared (protocol (parse (url (settings s))) = JStr ''https:'')
                        (parse (url (settings s))) s d)"
proof -
  from determine_server_supported [OF assms(3)] obtain host where
    ds: "determine_server (parse (url (settings s)))
           = Inr (protocol (parse (url (settings s))) = JStr ''https:'', False, host)" ..
  show ?thesis
  proof (cases "truthy (async (settings s))")
    case True
    from send_async(8) [where parse = parse and s = s, OF assms(1,2) ds True] show ?thesis .
  next
    case False
    from send_sync [where parse = parse and s = s, OF assms(1,2) ds False] show ?thesis by simp
  qed
qed

lemma send_prepared_Host:
  "tget (headers (send_prepared ssl u s d)) ''Host'' = host_header ssl u"
  by (simp add: send_prepared_def set_content_length_header set_basic_auth_Host tget_tset)

lemma send_prepared_Authorization:
  "truthy (user (settings s)) \<Longrightarrow> password (settings s) \<noteq> JUndefined \<Longrightarrow>
   tget (headers (send_prepared ssl u s d)) ''Authorization''
     = JStr (''Basic '' @ to_string (user (settings s)) @ '':'' @ to_string (password (settings s)))"
  by (simp add: send_prepared_def set_content_length_header set_basic_auth_def Let_def tget_tset)

lemma send_prepared_fields:
  "readyState (send_prepared ssl u s d) = readyState s"
  "sendFlag (send_prepared ssl u s d) = sendFlag s"
  "events (send_prepared ssl u s d) = events s"
  "transport (send_prepared ssl u s d) = transport s"
  "responseText (send_prepared ssl u s d) = responseText s"
  "settings (send_prepared ssl u s d) = settings (set_basic_auth s)"
  by (simp_all add: send_prepared_def set_content_length_fields set_basic_auth_fields set_basic_auth_other)

lemma send_request_port:
  assumes "readyState s = OPENED" "\<not> sendFlag s"
    and "protocol (parse (url (settings s))) \<in> {JStr ''https:'', JStr ''http:'', JUndefined, JStr []}"
    and "truthy (async (settings s))"
  shows "\<exists>opts rest. transport (snd (send parse s d)) = transport s @ TRequest opts # rest
           \<and> o_port opts = effective_port (protocol (parse (url (settings s))) = JStr ''https:'') (parse (url (settings s)))
           \<and> o_headers opts = headers (snd (send parse s d))"
proof -
  from determine_server_supported [OF assms(3)] obtain host where
    ds: "determine_server (parse (url (settings s)))
           = Inr (protocol (parse (url (settings s))) = JStr ''https:'', False, host)" ..
  from send_async(9) [where parse = parse and s = s, OF assms(1,2) ds assms(4)]
  obtain rest where "transport (snd (send parse s d)) = transport s @
            TRequest (request_options (protocol (parse (url (settings s))) = JStr ''https:'') host (parse (url (settings s)))
                        (send_prepared (protocol (parse (url (settings s))) = JStr ''https:'') (parse (url (settings s))) s d)) # rest" ..
  moreover note send_async(8) [where parse = parse and s = s, OF assms(1,2) ds assms(4)]
  ultimately show ?thesis by (simp add: request_options_def)
qed

lemma send_settings:
  "password (settings s) \<noteq> JUndefined \<or> readyState s \<noteq> OPENED \<Longrightarrow>
   settings (snd (send parse s d)) = settings s"
  by (auto simp add: send_def Let_def case_prod_beta dispatchEvent_def doRequest_def transport_call_def request_end_def
      request_write_def set_content_length_fields set_basic_auth_settings set_basic_auth_other
      split: sum.splits option.splits)

lemma open_sendFlag:
  assumes "sendFlag s0 \<longrightarrow> readyState s0 \<in> {OPENED, HEADERS_RECEIVED, LOADING}"
    and "open s0 m u a usr pw = (Return (), s1)"
  shows "\<not> sendFlag s1"
  using assms(1) open_Return(3) [OF assms(2)] by (auto simp add: abort_sendFlag)

lemma determine_server_Inl:
  "determine_server u = Inl e \<Longrightarrow> e = ''Protocol not supported.''"
  by (auto simp add: determine_server_def split: if_splits)

lemma send_sync_result:
  assumes "readyState s = OPENED" "\<not> sendFlag s" "\<not> truthy (async (settings s))"
  shows "fst (send parse s d)
           = Throw (case determine_server (parse (url (settings s))) of
                      Inl e \<Rightarrow> e
                    | Inr (ssl, local, host) \<Rightarrow>
                        if local
                        then ''The '' @ [CHR 0x22] @ ''local'' @ [CHR 0x22] @ '' option is not supported on TItanium.''
                        else ''Synchronous requests are not supported in Titanium.'')
         \<and> transport (snd (send parse s d)) = transport s
         \<and> \<not> sendFlag (snd (send parse s d))"
  using assms
  by (auto simp add: send_def Let_def case_prod_beta set_content_length_fields set_basic_auth_fields
      split: sum.splits)

lemma send_Return:
  assumes "send parse s d = (Return (), s')"
  shows "readyState s = OPENED" "\<not> sendFlag s" "truthy (async (settings s))"
    "\<exists>ssl host. determine_server (parse (url (settings s))) = Inr (ssl, False, host)"
  using assms
  by (auto simp add: send_def Let_def case_prod_beta set_content_length_fields
      set_basic_auth_fields set_basic_auth_other split: if_splits sum.splits)

lemma responseHandler_fields:
  assumes "\<not> is_redirect (statusCode resp)"
  shows "readyState (responseHandler parse ssl s resp) = HEADERS_RECEIVED"
    "sendFlag (responseHandler parse ssl s resp) = sendFlag s"
    "errorFlag (responseHandler parse ssl s resp) = errorFlag s"
    "responseText (responseHandler parse ssl s resp) = responseText s"
    "settings (responseHandler parse ssl s resp) = settings s"
    "events (responseHandler parse ssl s resp)
       = events s @ (if readyState s = HEADERS_RECEIVED \<or> \<not> truthy (async (settings s)) then []
                     else [(''readystatechange'', HEADERS_RECEIVED)])"
  using assms
  by (simp_all add: responseHandler_def Let_def setState_fields setState_events)

lemma send_readyState: "readyState (snd (send parse s d)) = readyState s"
  by (auto simp add: send_def Let_def case_prod_beta dispatchEvent_def doRequest_def transport_call_def request_end_def
      request_write_def set_content_length_fields set_basic_auth_fields
      split: sum.splits option.splits)

lemma responseHandler_redirect_fields:
  assumes "is_redirect (statusCode resp)"
  shows "readyState (responseHandler parse ssl s resp) = readyState s"
    "settings (responseHandler parse ssl s resp) = (settings s)\<lparr>url := tget (r_headers resp) ''location''\<rparr>"
  using assms
  by (simp_all add: responseHandler_def Let_def doRequest_def transport_call_def request_end_def)

lemma on_data_fields:
  "settings (on_data s c) = settings s"
  "readyState (on_data s c) = (if sendFlag s then LOADING else readyState s)"
  by (simp_all add: on_data_def Let_def setState_fields)

lemma on_end_fields:
  "settings (on_end s) = settings s"
  "readyState (on_end s) = (if sendFlag s then DONE else readyState s)"
  by (simp_all add: on_end_def setState_fields)

lemma handleError_fields:
  "settings (handleError s e) = settings s"
  "readyState (handleError s e) = DONE"
  "sendFlag (handleError s e) = sendFlag s"
  by (simp_all add: handleError_def setState_fields)

lemma setRequestHeader_fields:
  "settings (snd (setRequestHeader s h v)) = settings s"
  "readyState (snd (setRequestHeader s h v)) = readyState s"
  by (simp_all add: setRequestHeader_def assign_header_def)

lemma open_fields:
  "fst (open s m u a usr pw) \<noteq> Return () \<Longrightarrow> settings (snd (open s m u a usr pw)) = settings s"
  "fst (open s m u a usr pw) \<noteq> Return () \<Longrightarrow> readyState (snd (open s m u a usr pw)) = UNSENT"
  "fst (open s m u a usr pw) = Return () \<Longrightarrow>
     settings (snd (open s m u a usr pw))
       = \<lparr>method = m, url = JStr (to_string u),
          async = (case a of JBool b \<Rightarrow> JBool b | _ \<Rightarrow> JBool True),
          user = js_or usr JNull, password = js_or pw JNull\<rparr>"
  by (auto simp add: open_def Let_def abort_fields setState_fields split: if_splits)

lemma js_or_defined: "js_or v JNull \<noteq> JUndefined"
  by (cases v) (simp_all add: js_or_def)

lemma exec_password:
  assumes "readyState s = OPENED \<longrightarrow> password (settings s) \<noteq> JUndefined"
  shows "readyState (exec parse s c) = OPENED \<longrightarrow> password (settings (exec parse s c)) \<noteq> JUndefined"
proof (cases c)
  case (Open m u a usr pw)
  show ?thesis
  proof (cases "fst (open s m u a usr pw) = Return ()")
    case True
    then show ?thesis using Open by (simp add: open_fields(3) js_or_defined)
  next
    case False
    then show ?thesis using Open by (simp add: open_fields(2))
  qed
next
  case (Send d)
  then show ?thesis using assms send_settings [of s parse d] by (auto simp add: send_readyState)
next
  case (OnResponse ssl resp)
  then show ?thesis using assms
    by (cases "is_redirect (statusCode resp)")
       (simp_all add: responseHandler_redirect_fields responseHandler_fields)
qed (use assms in \<open>simp_all add: setDisableHeaderCheck_def setRequestHeader_fields abort_fields
      on_data_fields on_end_fields handleError_fields\<close>)

lemma run_password:
  "readyState (run parse new_xhr cs) = OPENED \<longrightarrow> password (settings (run parse new_xhr cs)) \<noteq> JUndefined"
proof (induction cs rule: rev_induct)
  case Nil
  show ?case by (simp add: run_def new_xhr_def)
next
  case (snoc c cs)
  from exec_password [OF snoc, of parse c] show ?case by (simp add: run_def)
qed

lemma setState_effects:
  "effects (setState s n) =
     effects s @ (if readyState s = n then []
                  else (if truthy (async (settings s)) \<or> n < OPENED \<or> n = DONE
                        then [Dispatch ''readystatechange'' n] else [])
                       @ (if n = DONE \<and> \<not> errorFlag s
                          then [Dispatch ''load'' n, Dispatch ''loadend'' n] else []))"
  by (simp add: setState_def dispatchEvent_def Let_def)

lemma log_frames:
  "effects (set_basic_auth s) = effects s"
  "effects (fst (set_content_length s d)) = effects s"
  "effects (send_prepared ssl u s d) = effects s"
  by (simp_all add: send_prepared_def set_content_length_def set_basic_auth_def Let_def)

lemma send_async_effects:
  assumes "readyState s = OPENED" "\<not> sendFlag s"
    and "determine_server (parse (url (settings s))) = Inr (ssl, False, host)"
    and "truthy (async (settings s))"
  shows "\<exists>opts ws. effects (snd (send parse s d)) =
            effects s @ Dispatch ''readystatechange'' OPENED # Call (TRequest opts) # ws
              @ [Call (TEnd (length (transport s))), Dispatch ''loadstart'' OPENED]
          \<and> (ws = [] \<or> (\<exists>b. ws = [Call (TWrite (length (transport s)) b)]))"
  using assms
  by (simp add: send_def Let_def case_prod_beta dispatchEvent_def doRequest_def transport_call_def
      request_end_def request_write_def set_basic_auth_fields set_content_length_fields log_frames)

lemma responseHandler_effects:
  assumes "\<not> is_redirect (statusCode resp)"
  shows "effects (responseHandler parse ssl s resp)
       = effects s @ (if readyState s = HEADERS_RECEIVED \<or> \<not> truthy (async (settings s)) then []
                      else [Dispatch ''readystatechange'' HEADERS_RECEIVED])"
  using assms
  by (simp add: responseHandler_def Let_def setState_effects)

lemma dispatched_append: "dispatched (xs @ ys) = dispatched xs @ dispatched ys"
  by (induction xs rule: dispatched.induct) simp_all

lemma called_append: "called (xs @ ys) = called xs @ called ys"
  by (induction xs rule: called.induct) simp_all

lemma coherent_frame:
  "events t = events s \<Longrightarrow> transport t = transport s \<Longrightarrow> effects t = effects s \<Longrightarrow>
   coherent t = coherent s"
  by (simp add: coherent_def)

lemma coherent_dispatchEvent: "coherent s \<Longrightarrow> coherent (dispatchEvent s e)"
  by (simp add: coherent_def dispatchEvent_def dispatched_append called_append)

lemma coherent_transport_call: "coherent s \<Longrightarrow> coherent (transport_call s c)"
  by (simp add: coherent_def transport_call_def dispatched_append called_append)

lemma coherent_setState: "coherent s \<Longrightarrow> coherent (setState s n)"
proof -
  assume c: "coherent s"
  have "coherent (s\<lparr>readyState := n\<rparr>)"
    using c by (simp add: coherent_def)
  then show ?thesis
    using c by (simp add: setState_def Let_def coherent_dispatchEvent)
qed

lemma coherent_abort: "coherent s \<Longrightarrow> coherent (abort s)"
proof -
  assume c: "coherent s"
  define s1 where "s1 = (case request s of
                  Some r \<Rightarrow> (transport_call s (TAbort r))\<lparr>request := None\<rparr>
                | None \<Rightarrow> s)"
  have c1: "coherent s1"
  proof (cases "request s")
    case None
    then show ?thesis using c by (simp add: s1_def)
  next
    case (Some r)
    have "coherent ((transport_call s (TAbort r))\<lparr>request := None\<rparr>) = coherent (transport_call s (TAbort r))"
      by (rule coherent_frame) simp_all
    then show ?thesis using c Some by (simp add: s1_def coherent_transport_call)
  qed
  define s2 where "s2 = s1\<lparr>headers := defaultHeaders, headers_plain := True, responseText := JStr [],
                  responseXML := [], errorFlag := True\<rparr>"
  have c2: "coherent s2" using c1 by (simp add: s2_def coherent_def)
  have c2': "coherent (s2\<lparr>sendFlag := False\<rparr>)" using c2 by (simp add: coherent_def)
  define s3 where "s3 = (if readyState s2 \<noteq> UNSENT
                   \<and> (readyState s2 \<noteq> OPENED \<or> sendFlag s2)
                   \<and> readyState s2 \<noteq> DONE
                then setState (s2\<lparr>sendFlag := False\<rparr>) DONE
                else s2)"
  have c3: "coherent s3" using c2 c2' by (simp add: s3_def coherent_setState)
  have "abort s = s3\<lparr>readyState := UNSENT\<rparr>"
    by (simp add: abort_def Let_def s1_def s2_def s3_def)
  then show ?thesis using c3 by (simp add: coherent_def)
qed

lemma coherent_open: "coherent s \<Longrightarrow> coherent (snd (open s m u a usr pw))"
proof -
  assume "coherent s"
  then have "coherent (abort s)" by (rule coherent_abort)
  then have a: "coherent ((abort s)\<lparr>errorFlag := False\<rparr>)"
    by (simp add: coherent_def)
  then have "\<And>x. coherent (((abort s)\<lparr>errorFlag := False\<rparr>)\<lparr>settings := x\<rparr>)"
    by (simp add: coherent_def)
  then show ?thesis
    using a by (simp add: open_def Let_def coherent_setState)
qed

lemma coherent_doRequest: "coherent s \<Longrightarrow> coherent (doRequest s opts)"
proof -
  assume "coherent s"
  then have "coherent (transport_call s (TRequest opts))" by (rule coherent_transport_call)
  then show ?thesis by (simp add: doRequest_def coherent_def)
qed

lemma coherent_request_write: "coherent s \<Longrightarrow> coherent (request_write s b)"
  by (simp add: request_write_def coherent_transport_call split: option.splits)

lemma coherent_request_end: "coherent s \<Longrightarrow> coherent (request_end s)"
  by (simp add: request_end_def coherent_transport_call split: option.splits)

lemma coherent_send_prepared: "coherent (send_prepared ssl u s d) = coherent s"
  by (rule coherent_frame) (simp_all add: log_frames send_prepared_fields)

lemma coherent_send: "coherent s \<Longrightarrow> coherent (snd (send parse s d))"
proof -
  assume c: "coherent s"
  have p: "\<And>ssl u. coherent (send_prepared ssl u s d)"
    using c by (simp add: coherent_send_prepared)
  then have p': "\<And>ssl u. coherent ((send_prepared ssl u s d)\<lparr>sendFlag := True\<rparr>)"
    by (simp add: coherent_def)
  show ?thesis
    using c p p'
    by (simp add: send_def Let_def case_prod_beta send_prepared_def [symmetric]
        coherent_dispatchEvent coherent_doRequest coherent_request_write coherent_request_end
        split: sum.splits)
qed

lemma coherent_responseHandler: "coherent s \<Longrightarrow> coherent (responseHandler parse ssl s resp)"
proof -
  assume c: "coherent s"
  then have a: "coherent (s\<lparr>response := Some resp\<rparr>)"
    by (simp add: coherent_def)
  then have b: "\<And>x. coherent (s\<lparr>response := Some resp, settings := x\<rparr>)"
    by (simp add: coherent_def)
  have d: "\<And>t x. coherent t \<Longrightarrow> coherent (t\<lparr>status := x\<rparr>)"
    by (simp add: coherent_def)
  show ?thesis
    using a b by (simp add: responseHandler_def Let_def coherent_request_end coherent_doRequest
        coherent_setState d)
qed

lemma coherent_exec: "coherent s \<Longrightarrow> coherent (exec parse s c)"
proof (cases c)
  case (Open m u a usr pw)
  assume "coherent s"
  then show ?thesis using Open by (simp add: coherent_open)
next
  case (Send d)
  assume "coherent s"
  then show ?thesis using Send by (simp add: coherent_send)
next
  case Abort
  assume "coherent s"
  then show ?thesis using Abort by (simp add: coherent_abort)
next
  case (OnResponse ssl resp)
  assume "coherent s"
  then show ?thesis using OnResponse by (simp add: coherent_responseHandler)
next
  case (SetDisableHeaderCheck b)
  assume "coherent s"
  then show ?thesis using SetDisableHeaderCheck by (simp add: coherent_def setDisableHeaderCheck_def)
next
  case (SetRequestHeader h v)
  assume "coherent s"
  then show ?thesis using SetRequestHeader
    by (simp add: coherent_def setRequestHeader_def assign_header_def)
next
  case (OnData ch)
  assume "coherent s"
  then have "coherent (s\<lparr>responseText := JStr (to_string (responseText s) @ ch)\<rparr>)"
    by (simp add: coherent_def)
  with \<open>coherent s\<close> show ?thesis using OnData by (simp add: on_data_def Let_def coherent_setState)
next
  case OnEnd
  assume "coherent s"
  then have "coherent (s\<lparr>sendFlag := False\<rparr>)"
    by (simp add: coherent_def)
  with \<open>coherent s\<close> show ?thesis using OnEnd by (simp add: on_end_def coherent_setState)
next
  case (OnError e)
  assume "coherent s"
  then have "coherent (s\<lparr>status := Some 503, statusText := Some e, responseText := stack e,
                 errorFlag := True\<rparr>)"
    by (simp add: coherent_def)
  then show ?thesis using OnError by (simp add: handleError_def coherent_setState)
qed

lemma coherent_run: "coherent (run parse new_xhr cs)"
proof (induction cs rule: rev_induct)
  case Nil
  show ?case by (simp add: run_def new_xhr_def coherent_def)
next
  case (snoc c cs)
  from coherent_exec [OF snoc, of parse c] show ?case by (simp add: run_def)
qed

lemma toLowerCase_proto: "toLowerCase h \<in> set forbiddenRequestHeaders \<Longrightarrow> h \<noteq> ''__proto__''"
  by (auto simp add: forbiddenRequestHeaders_def lower_char_def)

section \<open>Evaluating the fixtures\<close>

lemmas eval_defs = run_def open_def abort_def setState_def dispatchEvent_def send_def
  determine_server_def host_header_def effective_port_def js_or_def set_basic_auth_def
  set_content_length_def request_options_def doRequest_def request_write_def request_end_def
  responseHandler_def is_redirect_def redirect_options_def on_data_def on_end_def handleError_def
  setRequestHeader_def setDisableHeaderCheck_def isAllowedHttpHeader_def isAllowedHttpMethod_def
  forbiddenRequestHeaders_def forbiddenRequestMethods_def defaultHeaders_def new_xhr_def
  transport_call_def assign_header_def example_parse_def port8080_parse_def port80_parse_def
  example_open_def ok_response_def found_response_def example_error_def lower_char_def Let_def

lemma opened_exchange_eval:
  "opened_exchange =
     \<lparr>request = None, response = None,
        settings =
          \<lparr>method = JStr ''GET'', url = JStr ''http://h/a'', async = JBool True,
             user = JNull, password = JNull\<rparr>,
        disableHeaderCheck = JBool False,
        headers =
          [(''User-Agent'', JStr ''node-XMLHttpRequest''),
           (''Accept'', JStr ''*/*'')],
        headers_plain = True, sendFlag = False, errorFlag = False,
        readyState = OPENED, responseText = JStr [], responseXML = [],
        status = None, statusText = None,
        events = [(''readystatechange'', OPENED)], transport = [],
        effects = [Dispatch ''readystatechange'' (OPENED)], warnings = []\<rparr>"
  by (simp add: opened_exchange_def eval_defs)

lemma sending_exchange_eval:
  "sending_exchange =
     \<lparr>request = Some 0, response = None,
        settings =
          \<lparr>method = JStr ''GET'', url = JStr ''http://h/a'', async = JBool True,
             user = JNull, password = JNull\<rparr>,
        disableHeaderCheck = JBool False,
        headers =
          [(''User-Agent'', JStr ''node-XMLHttpRequest''),
           (''Accept'', JStr ''*/*''), (''Host'', JStr ''h'')],
        headers_plain = True, sendFlag = True, errorFlag = False,
        readyState = OPENED, responseText = JStr [], responseXML = [],
        status = None, statusText = None,
        events =
          [(''readystatechange'', OPENED),
           (''readystatechange'', OPENED), (''loadstart'', OPENED)],
        transport =
          [TRequest
            \<lparr>o_protocol = JStr ''http:'', o_hostname = JStr ''h'',
               o_port = JNum 80, o_path = JStr ''/a'', o_pathname = JStr ''/a'',
               o_search = JNull, o_hash = JNull, o_method = JStr ''GET'',
               o_headers =
                 [(''User-Agent'', JStr ''node-XMLHttpRequest''),
                  (''Accept'', JStr ''*/*''), (''Host'', JStr ''h'')],
               o_tls = False\<rparr>,
           TEnd 0],
        effects =
          [Dispatch ''readystatechange'' (OPENED),
           Dispatch ''readystatechange'' (OPENED),
           Call
            (TRequest
              \<lparr>o_protocol = JStr ''http:'', o_hostname = JStr ''h'',
                 o_port = JNum 80, o_path = JStr ''/a'',
                 o_pathname = JStr ''/a'', o_search = JNull, o_hash = JNull,
                 o_method = JStr ''GET'',
                 o_headers =
                   [(''User-Agent'', JStr ''node-XMLHttpRequest''),
                    (''Accept'', JStr ''*/*''), (''Host'', JStr ''h'')],
                 o_tls = False\<rparr>),
           Call (TEnd 0), Dispatch ''loadstart'' (OPENED)],
        warnings = []\<rparr>"
  by (simp add: sending_exchange_def eval_defs)

lemma aborted_exchange_eval:
  "aborted_exchange =
     \<lparr>request = None, response = Some \<lparr>statusCode = 200, r_headers = []\<rparr>,
        settings =
          \<lparr>method = JStr ''GET'', url = JStr ''http://h/a'', async = JBool True,
             user = JNull, password = JNull\<rparr>,
        disableHeaderCheck = JBool False,
        headers =
          [(''User-Agent'', JStr ''node-XMLHttpRequest''),
           (''Accept'', JStr ''*/*'')],
        headers_plain = True, sendFlag = False, errorFlag = True,
        readyState = UNSENT, responseText = JStr [], responseXML = [],
        status = Some 200, statusText = None,
        events =
          [(''readystatechange'', OPENED),
           (''readystatechange'', OPENED), (''loadstart'', OPENED),
           (''readystatechange'', HEADERS_RECEIVED),
           (''readystatechange'', DONE)],
        transport =
          [TRequest
            \<lparr>o_protocol = JStr ''http:'', o_hostname = JStr ''h'',
               o_port = JNum 80, o_path = JStr ''/a'', o_pathname = JStr ''/a'',
               o_search = JNull, o_hash = JNull, o_method = JStr ''GET'',
               o_headers =
                 [(''User-Agent'', JStr ''node-XMLHttpRequest''),
                  (''Accept'', JStr ''*/*''), (''Host'', JStr ''h'')],
               o_tls = False\<rparr>,
           TEnd 0, TAbort 0],
        effects =
          [Dispatch ''readystatechange'' (OPENED),
           Dispatch ''readystatechange'' (OPENED),
           Call
            (TRequest
              \<lparr>o_protocol = JStr ''http:'', o_hostname = JStr ''h'',
                 o_port = JNum 80, o_path = JStr ''/a'',
                 o_pathname = JStr ''/a'', o_search = JNull, o_hash = JNull,
                 o_method = JStr ''GET'',
                 o_headers =
                   [(''User-Agent'', JStr ''node-XMLHttpRequest''),
                    (''Accept'', JStr ''*/*''), (''Host'', JStr ''h'')],
                 o_tls = False\<rparr>),
           Call (TEnd 0), Dispatch ''loadstart'' (OPENED),
           Dispatch ''readystatechange'' HEADERS_RECEIVED, Call (TAbort 0),
           Dispatch ''readystatechange'' DONE],
        warnings = []\<rparr>"
  by (simp add: aborted_exchange_def eval_defs)

lemma post_exchange_eval:
  "post_exchange =
     \<lparr>request = Some 0, response = None,
        settings =
          \<lparr>method = JStr ''POST'', url = JStr ''http://h/a'', async = JBool True,
             user = JNull, password = JNull\<rparr>,
        disableHeaderCheck = JBool False,
        headers =
          [(''User-Agent'', JStr ''node-XMLHttpRequest''),
           (''Accept'', JStr ''*/*''), (''Host'', JStr ''h''),
           (''Content-Length'', JNum 0)],
        headers_plain = True, sendFlag = True, errorFlag = False,
        readyState = OPENED, responseText = JStr [], responseXML = [],
        status = None, statusText = None,
        events =
          [(''readystatechange'', OPENED),
           (''readystatechange'', OPENED), (''loadstart'', OPENED)],
        transport =
          [TRequest
            \<lparr>o_protocol = JStr ''http:'', o_hostname = JStr ''h'',
               o_port = JNum 80, o_path = JStr ''/a'', o_pathname = JStr ''/a'',
               o_search = JNull, o_hash = JNull, o_method = JStr ''POST'',
               o_headers =
                 [(''User-Agent'', JStr ''node-XMLHttpRequest''),
                  (''Accept'', JStr ''*/*''), (''Host'', JStr ''h''),
                  (''Content-Length'', JNum 0)],
               o_tls = False\<rparr>,
           TEnd 0],
        effects =
          [Dispatch ''readystatechange'' (OPENED),
           Dispatch ''readystatechange'' (OPENED),
           Call
            (TRequest
              \<lparr>o_protocol = JStr ''http:'', o_hostname = JStr ''h'',
                 o_port = JNum 80, o_path = JStr ''/a'',
                 o_pathname = JStr ''/a'', o_search = JNull, o_hash = JNull,
                 o_method = JStr ''POST'',
                 o_headers =
                   [(''User-Agent'', JStr ''node-XMLHttpRequest''),
                    (''Accept'', JStr ''*/*''), (''Host'', JStr ''h''),
                    (''Content-Length'', JNum 0)],
                 o_tls = False\<rparr>),
           Call (TEnd 0), Dispatch ''loadstart'' (OPENED)],
        warnings = []\<rparr>"
  by (simp add: post_exchange_def eval_defs)

lemma finished_exchange_eval:
  "finished_exchange =
     \<lparr>request = Some 0, response = Some \<lparr>statusCode = 200, r_headers = []\<rparr>,
        settings =
          \<lparr>method = JStr ''GET'', url = JStr ''http://h/a'', async = JBool True,
             user = JNull, password = JNull\<rparr>,
        disableHeaderCheck = JBool False,
        headers =
          [(''User-Agent'', JStr ''node-XMLHttpRequest''),
           (''Accept'', JStr ''*/*''), (''Host'', JStr ''h'')],
        headers_plain = True, sendFlag = False, errorFlag = False,
        readyState = DONE, responseText = JStr ''abcd'', responseXML = [],
        status = Some 200, statusText = None,
        events =
          [(''readystatechange'', OPENED),
           (''readystatechange'', OPENED), (''loadstart'', OPENED),
           (''readystatechange'', HEADERS_RECEIVED),
           (''readystatechange'', LOADING), (''readystatechange'', DONE),
           (''load'', DONE), (''loadend'', DONE)],
        transport =
          [TRequest
            \<lparr>o_protocol = JStr ''http:'', o_hostname = JStr ''h'',
               o_port = JNum 80, o_path = JStr ''/a'', o_pathname = JStr ''/a'',
               o_search = JNull, o_hash = JNull, o_method = JStr ''GET'',
               o_headers =
                 [(''User-Agent'', JStr ''node-XMLHttpRequest''),
                  (''Accept'', JStr ''*/*''), (''Host'', JStr ''h'')],
               o_tls = False\<rparr>,
           TEnd 0],
        effects =
          [Dispatch ''readystatechange'' (OPENED),
           Dispatch ''readystatechange'' (OPENED),
           Call
            (TRequest
              \<lparr>o_protocol = JStr ''http:'', o_hostname = JStr ''h'',
                 o_port = JNum 80, o_path = JStr ''/a'',
                 o_pathname = JStr ''/a'', o_search = JNull, o_hash = JNull,
                 o_method = JStr ''GET'',
                 o_headers =
                   [(''User-Agent'', JStr ''node-XMLHttpRequest''),
                    (''Accept'', JStr ''*/*''), (''Host'', JStr ''h'')],
                 o_tls = False\<rparr>),
           Call (TEnd 0), Dispatch ''loadstart'' (OPENED),
           Dispatch ''readystatechange'' HEADERS_RECEIVED,
           Dispatch ''readystatechange'' LOADING,
           Dispatch ''readystatechange'' DONE, Dispatch ''load'' DONE,
           Dispatch ''loadend'' DONE],
        warnings = []\<rparr>"
  by (simp add: finished_exchange_def eval_defs)

lemma failed_exchange_eval:
  "failed_exchange =
     \<lparr>request = Some 0, response = None,
        settings =
          \<lparr>method = JStr ''GET'', url = JStr ''http://h/a'', async = JBool True,
             user = JNull, password = JNull\<rparr>,
        disableHeaderCheck = JBool False,
        headers =
          [(''User-Agent'', JStr ''node-XMLHttpRequest''),
           (''Accept'', JStr ''*/*''), (''Host'', JStr ''h'')],
        headers_plain = True, sendFlag = True, errorFlag = True,
        readyState = DONE, responseText = JStr ''Error: connect ECONNREFUSED'',
        responseXML = [], status = Some 503,
        statusText =
          Some
           \<lparr>message = ''connect ECONNREFUSED'',
              stack = JStr ''Error: connect ECONNREFUSED''\<rparr>,
        events =
          [(''readystatechange'', OPENED),
           (''readystatechange'', OPENED), (''loadstart'', OPENED),
           (''readystatechange'', DONE)],
        transport =
          [TRequest
            \<lparr>o_protocol = JStr ''http:'', o_hostname = JStr ''h'',
               o_port = JNum 80, o_path = JStr ''/a'', o_pathname = JStr ''/a'',
               o_search = JNull, o_hash = JNull, o_method = JStr ''GET'',
               o_headers =
                 [(''User-Agent'', JStr ''node-XMLHttpRequest''),
                  (''Accept'', JStr ''*/*''), (''Host'', JStr ''h'')],
               o_tls = False\<rparr>,
           TEnd 0],
        effects =
          [Dispatch ''readystatechange'' (OPENED),
           Dispatch ''readystatechange'' (OPENED),
           Call
            (TRequest
              \<lparr>o_protocol = JStr ''http:'', o_hostname = JStr ''h'',
                 o_port = JNum 80, o_path = JStr ''/a'',
                 o_pathname = JStr ''/a'', o_search = JNull, o_hash = JNull,
                 o_method = JStr ''GET'',
                 o_headers =
                   [(''User-Agent'', JStr ''node-XMLHttpRequest''),
                    (''Accept'', JStr ''*/*''), (''Host'', JStr ''h'')],
                 o_tls = False\<rparr>),
           Call (TEnd 0), Dispatch ''loadstart'' (OPENED),
           Dispatch ''readystatechange'' DONE],
        warnings = []\<rparr>"
  by (simp add: failed_exchange_def eval_defs)

lemma reopened_exchange_eval:
  "reopened_exchange =
     \<lparr>request = None, response = None,
        settings =
          \<lparr>method = JStr ''GET'', url = JStr ''http://h/a'', async = JBool True,
             user = JNull, password = JNull\<rparr>,
        disableHeaderCheck = JBool False,
        headers =
          [(''User-Agent'', JStr ''node-XMLHttpRequest''),
           (''Accept'', JStr ''*/*'')],
        headers_plain = True, sendFlag = True, errorFlag = False,
        readyState = OPENED, responseText = JStr [], responseXML = [],
        status = Some 503,
        statusText =
          Some
           \<lparr>message = ''connect ECONNREFUSED'',
              stack = JStr ''Error: connect ECONNREFUSED''\<rparr>,
        events =
          [(''readystatechange'', OPENED),
           (''readystatechange'', OPENED), (''loadstart'', OPENED),
           (''readystatechange'', DONE), (''readystatechange'', OPENED)],
        transport =
          [TRequest
            \<lparr>o_protocol = JStr ''http:'', o_hostname = JStr ''h'',
               o_port = JNum 80, o_path = JStr ''/a'', o_pathname = JStr ''/a'',
               o_search = JNull, o_hash = JNull, o_method = JStr ''GET'',
               o_headers =
                 [(''User-Agent'', JStr ''node-XMLHttpRequest''),
                  (''Accept'', JStr ''*/*''), (''Host'', JStr ''h'')],
               o_tls = False\<rparr>,
           TEnd 0, TAbort 0],
        effects =
          [Dispatch ''readystatechange'' (OPENED),
           Dispatch ''readystatechange'' (OPENED),
           Call
            (TRequest
              \<lparr>o_protocol = JStr ''http:'', o_hostname = JStr ''h'',
                 o_port = JNum 80, o_path = JStr ''/a'',
                 o_pathname = JStr ''/a'', o_search = JNull, o_hash = JNull,
                 o_method = JStr ''GET'',
                 o_headers =
                   [(''User-Agent'', JStr ''node-XMLHttpRequest''),
                    (''Accept'', JStr ''*/*''), (''Host'', JStr ''h'')],
                 o_tls = False\<rparr>),
           Call (TEnd 0), Dispatch ''loadstart'' (OPENED),
           Dispatch ''readystatechange'' DONE, Call (TAbort 0),
           Dispatch ''readystatechange'' (OPENED)],
        warnings = []\<rparr>"
  by (simp add: reopened_exchange_def failed_exchange_def eval_defs)

lemma redirected_exchange_eval:
  "redirected_exchange =
     \<lparr>request = Some (2),
        response =
          Some
           \<lparr>statusCode = 302, r_headers = [(''location'', JStr ''http://h/b'')]\<rparr>,
        settings =
          \<lparr>method = JStr ''GET'', url = JStr ''http://h/b'', async = JBool True,
             user = JNull, password = JNull\<rparr>,
        disableHeaderCheck = JBool False,
        headers =
          [(''User-Agent'', JStr ''node-XMLHttpRequest''),
           (''Accept'', JStr ''*/*''), (''Host'', JStr ''h'')],
        headers_plain = True, sendFlag = True, errorFlag = False,
        readyState = OPENED, responseText = JStr [], responseXML = [],
        status = None, statusText = None,
        events =
          [(''readystatechange'', OPENED),
           (''readystatechange'', OPENED), (''loadstart'', OPENED)],
        transport =
          [TRequest
            \<lparr>o_protocol = JStr ''http:'', o_hostname = JStr ''h'',
               o_port = JNum 80, o_path = JStr ''/a'', o_pathname = JStr ''/a'',
               o_search = JNull, o_hash = JNull, o_method = JStr ''GET'',
               o_headers =
                 [(''User-Agent'', JStr ''node-XMLHttpRequest''),
                  (''Accept'', JStr ''*/*''), (''Host'', JStr ''h'')],
               o_tls = False\<rparr>,
           TEnd 0,
           TRequest
            \<lparr>o_protocol = JUndefined, o_hostname = JStr ''h'', o_port = JNull,
               o_path = JStr ''/b'', o_pathname = JUndefined,
               o_search = JUndefined, o_hash = JUndefined,
               o_method = JStr ''GET'',
               o_headers =
                 [(''User-Agent'', JStr ''node-XMLHttpRequest''),
                  (''Accept'', JStr ''*/*''), (''Host'', JStr ''h'')],
               o_tls = False\<rparr>,
           TEnd (2)],
        effects =
          [Dispatch ''readystatechange'' (OPENED),
           Dispatch ''readystatechange'' (OPENED),
           Call
            (TRequest
              \<lparr>o_protocol = JStr ''http:'', o_hostname = JStr ''h'',
                 o_port = JNum 80, o_path = JStr ''/a'',
                 o_pathname = JStr ''/a'', o_search = JNull, o_hash = JNull,
                 o_method = JStr ''GET'',
                 o_headers =
                   [(''User-Agent'', JStr ''node-XMLHttpRequest''),
                    (''Accept'', JStr ''*/*''), (''Host'', JStr ''h'')],
                 o_tls = False\<rparr>),
           Call (TEnd 0), Dispatch ''loadstart'' (OPENED),
           Call
            (TRequest
              \<lparr>o_protocol = JUndefined, o_hostname = JStr ''h'', o_port = JNull,
                 o_path = JStr ''/b'', o_pathname = JUndefined,
                 o_search = JUndefined, o_hash = JUndefined,
                 o_method = JStr ''GET'',
                 o_headers =
                   [(''User-Agent'', JStr ''node-XMLHttpRequest''),
                    (''Accept'', JStr ''*/*''), (''Host'', JStr ''h'')],
                 o_tls = False\<rparr>),
           Call (TEnd (2))],
        warnings = []\<rparr>"
  by (simp add: redirected_exchange_def eval_defs)

lemma sync_opened_eval:
  "sync_opened =
     \<lparr>request = None, response = None,
        settings =
          \<lparr>method = JStr ''GET'', url = JStr ''http://h/a'', async = JBool False,
             user = JNull, password = JNull\<rparr>,
        disableHeaderCheck = JBool False,
        headers =
          [(''User-Agent'', JStr ''node-XMLHttpRequest''),
           (''Accept'', JStr ''*/*'')],
        headers_plain = True, sendFlag = False, errorFlag = False,
        readyState = OPENED, responseText = JStr [], responseXML = [],
        status = None, statusText = None, events = [], transport = [],
        effects = [], warnings = []\<rparr>"
  by (simp add: sync_opened_def eval_defs)

lemma auth_opened_eval:
  "auth_opened =
     \<lparr>request = None, response = None,
        settings =
          \<lparr>method = JStr ''GET'', url = JStr ''http://h/a'', async = JBool True,
             user = JStr ''bob'', password = JNull\<rparr>,
        disableHeaderCheck = JBool False,
        headers =
          [(''User-Agent'', JStr ''node-XMLHttpRequest''),
           (''Accept'', JStr ''*/*'')],
        headers_plain = True, sendFlag = False, errorFlag = False,
        readyState = OPENED, responseText = JStr [], responseXML = [],
        status = None, statusText = None,
        events = [(''readystatechange'', OPENED)], transport = [],
        effects = [Dispatch ''readystatechange'' (OPENED)], warnings = []\<rparr>"
  by (simp add: auth_opened_def eval_defs)

lemma sync_reopened_eval:
  "sync_reopened =
     \<lparr>request = None, response = None,
        settings =
          \<lparr>method = JStr ''GET'', url = JStr ''http://h/a'', async = JBool False,
             user = JNull, password = JNull\<rparr>,
        disableHeaderCheck = JBool False,
        headers =
          [(''User-Agent'', JStr ''node-XMLHttpRequest''),
           (''Accept'', JStr ''*/*'')],
        headers_plain = True, sendFlag = True, errorFlag = False,
        readyState = OPENED, responseText = JStr [], responseXML = [],
        status = Some 503,
        statusText =
          Some
           \<lparr>message = ''connect ECONNREFUSED'',
              stack = JStr ''Error: connect ECONNREFUSED''\<rparr>,
        events =
          [(''readystatechange'', OPENED),
           (''readystatechange'', OPENED), (''loadstart'', OPENED),
           (''readystatechange'', DONE)],
        transport =
          [TRequest
            \<lparr>o_protocol = JStr ''http:'', o_hostname = JStr ''h'',
               o_port = JNum 80, o_path = JStr ''/a'', o_pathname = JStr ''/a'',
               o_search = JNull, o_hash = JNull, o_method = JStr ''GET'',
               o_headers =
                 [(''User-Agent'', JStr ''node-XMLHttpRequest''),
                  (''Accept'', JStr ''*/*''), (''Host'', JStr ''h'')],
               o_tls = False\<rparr>,
           TEnd 0, TAbort 0],
        effects =
          [Dispatch ''readystatechange'' (OPENED),
           Dispatch ''readystatechange'' (OPENED),
           Call
            (TRequest
              \<lparr>o_protocol = JStr ''http:'', o_hostname = JStr ''h'',
                 o_port = JNum 80, o_path = JStr ''/a'',
                 o_pathname = JStr ''/a'', o_search = JNull, o_hash = JNull,
                 o_method = JStr ''GET'',
                 o_headers =
                   [(''User-Agent'', JStr ''node-XMLHttpRequest''),
                    (''Accept'', JStr ''*/*''), (''Host'', JStr ''h'')],
                 o_tls = False\<rparr>),
           Call (TEnd 0), Dispatch ''loadstart'' (OPENED),
           Dispatch ''readystatechange'' DONE, Call (TAbort 0)],
        warnings = []\<rparr>"
  by (simp add: sync_reopened_def failed_exchange_def eval_defs)

section \<open>State transitions and events\<close>

text \<open>
  C4. On an asynchronous exchange \<^verbatim>\<open>setState\<close> dispatches \<^verbatim>\<open>readystatechange\<close> exactly
  once when the new state differs from \<^verbatim>\<open>readyState\<close>, and does nothing at all when it
  is the same; and \<^verbatim>\<open>open\<close> with an allowed method and a URL that is neither
  \<^verbatim>\<open>undefined\<close> nor \<^verbatim>\<open>null\<close> returns with \<^verbatim>\<open>readyState\<close> equal to \<^verbatim>\<open>OPENED\<close>, whatever the
  object's state was before.
\<close>

theorem setState_readystatechange_once:
  "(truthy (async (settings s)) \<longrightarrow>
      fired ''readystatechange'' (setState s n)
        = fired ''readystatechange'' s + (if readyState s \<noteq> n then 1 else 0))
   \<and> (readyState s = n \<longrightarrow> setState s n = s)
   \<and> (isAllowedHttpMethod m \<and> u \<noteq> JUndefined \<and> u \<noteq> JNull \<longrightarrow>
        fst (open s' m u a usr pw) = Return () \<and> readyState (snd (open s' m u a usr pw)) = OPENED)"
  by (simp add: fired_def setState_events setState_same open_def Let_def setState_fields)

theorem setState_readystatechange_once_witness:
  "truthy (async (settings opened_exchange))
   \<and> readyState opened_exchange \<noteq> HEADERS_RECEIVED
   \<and> fired ''readystatechange'' (setState opened_exchange HEADERS_RECEIVED)
       = fired ''readystatechange'' opened_exchange + 1
   \<and> readyState opened_exchange = OPENED
   \<and> setState opened_exchange OPENED = opened_exchange
   \<and> isAllowedHttpMethod (JStr ''GET'')
   \<and> readyState (snd (open new_xhr (JStr ''GET'') (JStr ''http://h/a'') JUndefined JUndefined JUndefined))
       = OPENED"
  using setState_readystatechange_once [of opened_exchange HEADERS_RECEIVED
      "JStr ''GET''" "JStr ''http://h/a''" new_xhr JUndefined JUndefined JUndefined]
    setState_readystatechange_once [of opened_exchange OPENED
      "JStr ''GET''" "JStr ''http://h/a''" new_xhr JUndefined JUndefined JUndefined]
  by (simp add: opened_exchange_eval isAllowedHttpMethod_def forbiddenRequestMethods_def)

text \<open>
  C1, as stated, fails. The trace \<^verbatim>\<open>open\<close>, \<^verbatim>\<open>send\<close>, response with status 200, chunk
  \<^verbatim>\<open>ab\<close>, chunk \<^verbatim>\<open>cd\<close>, end does not dispatch the claimed sequence with one
  \<^verbatim>\<open>readystatechange\<close> in \<^verbatim>\<open>LOADING\<close> per chunk: the second chunk finds the object in
  \<^verbatim>\<open>LOADING\<close> already, and \<^verbatim>\<open>setState\<close> is silent on an unchanged state.
\<close>

theorem two_chunks_counterexample:
  "events finished_exchange \<noteq>
     events opened_exchange @
       [(''readystatechange'', OPENED), (''loadstart'', OPENED),
        (''readystatechange'', HEADERS_RECEIVED),
        (''readystatechange'', LOADING), (''readystatechange'', LOADING),
        (''readystatechange'', DONE), (''load'', DONE), (''loadend'', DONE)]"
  by (simp add: finished_exchange_eval opened_exchange_eval)

text \<open>
  C1, as the code has it. When \<^verbatim>\<open>open\<close> and then \<^verbatim>\<open>send\<close> return normally and the
  response has status 200 and delivers two chunks and then its end, the events after
  \<^verbatim>\<open>open\<close> are: \<^verbatim>\<open>readystatechange\<close> (dispatched by \<^verbatim>\<open>send\<close>, still in \<^verbatim>\<open>OPENED\<close>),
  \<^verbatim>\<open>loadstart\<close>, \<^verbatim>\<open>readystatechange\<close> in \<^verbatim>\<open>HEADERS_RECEIVED\<close>, \<^verbatim>\<open>readystatechange\<close> in
  \<^verbatim>\<open>LOADING\<close> once, for the first chunk only, \<^verbatim>\<open>readystatechange\<close> in \<^verbatim>\<open>DONE\<close>, \<^verbatim>\<open>load\<close>,
  \<^verbatim>\<open>loadend\<close>; and \<^verbatim>\<open>responseText\<close> ends as the two chunks in their order of arrival.
  The first \<^verbatim>\<open>readystatechange\<close> comes before any network activity: in the common order
  of events and transport calls it stands before the request, which is followed by at
  most one write and by its end, and only then come \<^verbatim>\<open>loadstart\<close> and the other events.
\<close>

theorem successful_exchange_events:
  assumes "open s0 m u a usr pw = (Return (), s1)"
    and "send parse s1 d = (Return (), s2)"
    and "statusCode resp = 200"
  shows "events (on_end (on_data (on_data (responseHandler parse ssl s2 resp) c1) c2))
           = events s1 @
               [(''readystatechange'', OPENED), (''loadstart'', OPENED),
                (''readystatechange'', HEADERS_RECEIVED), (''readystatechange'', LOADING),
                (''readystatechange'', DONE), (''load'', DONE), (''loadend'', DONE)]
         \<and> responseText (on_end (on_data (on_data (responseHandler parse ssl s2 resp) c1) c2))
             = JStr (c1 @ c2)
         \<and> (\<exists>opts ws.
               effects (on_end (on_data (on_data (responseHandler parse ssl s2 resp) c1) c2))
                 = effects s1 @ Dispatch ''readystatechange'' OPENED # Call (TRequest opts) # ws
                     @ [Call (TEnd (length (transport s1))), Dispatch ''loadstart'' OPENED,
                        Dispatch ''readystatechange'' HEADERS_RECEIVED,
                        Dispatch ''readystatechange'' LOADING,
                        Dispatch ''readystatechange'' DONE,
                        Dispatch ''load'' DONE, Dispatch ''loadend'' DONE]
               \<and> (ws = [] \<or> (\<exists>b. ws = [Call (TWrite (length (transport s1)) b)])))"
proof -
  note o = open_Return [OF assms(1)]
  note r = send_Return [OF assms(2)]
  from r(4) obtain ssl' host where
    ds: "determine_server (parse (url (settings s1))) = Inr (ssl', False, host)" by blast
  note a = send_async [where parse = parse and s = s1 and d = d, OF r(1,2) ds r(3)]
  have s2: "snd (send parse s1 d) = s2" using assms(2) by simp
  have nr: "\<not> is_redirect (statusCode resp)" using assms(3) by (simp add: is_redirect_def)
  define s3 where "s3 = responseHandler parse ssl s2 resp"
  have as: "truthy (async (settings s2))"
    using a(7) r(3) by (simp add: s2 set_basic_auth_fields)
  have f3: "readyState s3 = HEADERS_RECEIVED" "sendFlag s3" "\<not> errorFlag s3"
    "responseText s3 = JStr []" "truthy (async (settings s3))"
    "events s3 = events s1 @ [(''readystatechange'', OPENED), (''loadstart'', OPENED),
                (''readystatechange'', HEADERS_RECEIVED)]"
    using a(2,3,4,5,6) as o(5)
    by (simp_all add: s3_def s2 responseHandler_fields [OF nr])
  from send_async_effects [where parse = parse and s = s1 and d = d, OF r(1,2) ds r(3)]
  obtain opts ws where
    e2: "effects s2 = effects s1 @ Dispatch ''readystatechange'' OPENED # Call (TRequest opts) # ws
              @ [Call (TEnd (length (transport s1))), Dispatch ''loadstart'' OPENED]"
    and ws: "ws = [] \<or> (\<exists>b. ws = [Call (TWrite (length (transport s1)) b)])"
    unfolding s2 by blast
  have e3: "effects s3 = effects s2 @ [Dispatch ''readystatechange'' HEADERS_RECEIVED]"
    using a(3) as by (simp add: s3_def s2 responseHandler_effects [OF nr])
  have ev: "events (on_end (on_data (on_data s3 c1) c2))
           = events s1 @
               [(''readystatechange'', OPENED), (''loadstart'', OPENED),
                (''readystatechange'', HEADERS_RECEIVED), (''readystatechange'', LOADING),
                (''readystatechange'', DONE), (''load'', DONE), (''loadend'', DONE)]
         \<and> responseText (on_end (on_data (on_data s3 c1) c2)) = JStr (c1 @ c2)"
    using f3 by (simp add: on_data_def on_end_def Let_def setState_fields setState_events)
  have "effects (on_end (on_data (on_data s3 c1) c2))
          = effects s3 @ [Dispatch ''readystatechange'' LOADING, Dispatch ''readystatechange'' DONE,
                          Dispatch ''load'' DONE, Dispatch ''loadend'' DONE]"
    using f3 by (simp add: on_data_def on_end_def Let_def setState_fields setState_effects)
  then have "effects (on_end (on_data (on_data s3 c1) c2))
                 = effects s1 @ Dispatch ''readystatechange'' OPENED # Call (TRequest opts) # ws
                     @ [Call (TEnd (length (transport s1))), Dispatch ''loadstart'' OPENED,
                        Dispatch ''readystatechange'' HEADERS_RECEIVED,
                        Dispatch ''readystatechange'' LOADING,
                        Dispatch ''readystatechange'' DONE,
                        Dispatch ''load'' DONE, Dispatch ''loadend'' DONE]"
    by (simp add: e3 e2)
  with ws ev show ?thesis
    unfolding s3_def [symmetric] by blast
qed

theorem successful_exchange_events_witness:
  "open new_xhr (JStr ''GET'') (JStr ''http://h/a'') JUndefined JUndefined JUndefined
     = (Return (), opened_exchange)
   \<and> send example_parse opened_exchange None = (Return (), sending_exchange)
   \<and> statusCode ok_response = 200
   \<and> events (on_end (on_data (on_data
         (responseHandler example_parse False sending_exchange ok_response) ''ab'') ''cd''))
       = [(''readystatechange'', OPENED),
          (''readystatechange'', OPENED), (''loadstart'', OPENED),
          (''readystatechange'', HEADERS_RECEIVED), (''readystatechange'', LOADING),
          (''readystatechange'', DONE), (''load'', DONE), (''loadend'', DONE)]
   \<and> responseText (on_end (on_data (on_data
         (responseHandler example_parse False sending_exchange ok_response) ''ab'') ''cd''))
       = JStr ''abcd''
   \<and> on_end (on_data (on_data
         (responseHandler example_parse False sending_exchange ok_response) ''ab'') ''cd'')
       = finished_exchange
   \<and> effects finished_exchange
       = [Dispatch ''readystatechange'' OPENED,
          Dispatch ''readystatechange'' OPENED,
          Call (TRequest
                  \<lparr>o_protocol = JStr ''http:'', o_hostname = JStr ''h'', o_port = JNum 80,
                   o_path = JStr ''/a'', o_pathname = JStr ''/a'', o_search = JNull,
                   o_hash = JNull, o_method = JStr ''GET'',
                   o_headers = [(''User-Agent'', JStr ''node-XMLHttpRequest''),
                                (''Accept'', JStr ''*/*''), (''Host'', JStr ''h'')],
                   o_tls = False\<rparr>),
          Call (TEnd 0), Dispatch ''loadstart'' OPENED,
          Dispatch ''readystatechange'' HEADERS_RECEIVED,
          Dispatch ''readystatechange'' LOADING,
          Dispatch ''readystatechange'' DONE,
          Dispatch ''load'' DONE, Dispatch ''loadend'' DONE]"
proof -
  have o: "open new_xhr (JStr ''GET'') (JStr ''http://h/a'') JUndefined JUndefined JUndefined
             = (Return (), opened_exchange)"
    by (simp add: opened_exchange_eval eval_defs)
  have s: "send example_parse opened_exchange None = (Return (), sending_exchange)"
    by (simp add: opened_exchange_eval sending_exchange_eval eval_defs)
  have r: "statusCode ok_response = 200"
    by (simp add: ok_response_def)
  have e: "events opened_exchange = [(''readystatechange'', OPENED)]"
    by (simp add: opened_exchange_eval)
  have f: "on_end (on_data (on_data
         (responseHandler example_parse False sending_exchange ok_response) ''ab'') ''cd'')
       = finished_exchange"
    by (simp add: finished_exchange_def sending_exchange_def run_def)
  have g: "effects finished_exchange
       = [Dispatch ''readystatechange'' OPENED,
          Dispatch ''readystatechange'' OPENED,
          Call (TRequest
                  \<lparr>o_protocol = JStr ''http:'', o_hostname = JStr ''h'', o_port = JNum 80,
                   o_path = JStr ''/a'', o_pathname = JStr ''/a'', o_search = JNull,
                   o_hash = JNull, o_method = JStr ''GET'',
                   o_headers = [(''User-Agent'', JStr ''node-XMLHttpRequest''),
                                (''Accept'', JStr ''*/*''), (''Host'', JStr ''h'')],
                   o_tls = False\<rparr>),
          Call (TEnd 0), Dispatch ''loadstart'' OPENED,
          Dispatch ''readystatechange'' HEADERS_RECEIVED,
          Dispatch ''readystatechange'' LOADING,
          Dispatch ''readystatechange'' DONE,
          Dispatch ''load'' DONE, Dispatch ''loadend'' DONE]"
    by (simp add: finished_exchange_eval)
  have h: "events finished_exchange
       = [(''readystatechange'', OPENED),
          (''readystatechange'', OPENED), (''loadstart'', OPENED),
          (''readystatechange'', HEADERS_RECEIVED), (''readystatechange'', LOADING),
          (''readystatechange'', DONE), (''load'', DONE), (''loadend'', DONE)]"
    "responseText finished_exchange = JStr ''abcd''"
    by (simp_all add: finished_exchange_eval)
  from successful_exchange_events [OF o s r, of False "''ab''" "''cd''"] o s r e f g h
  show ?thesis by simp
qed

section \<open>Redirects\<close>

text \<open>
  C8. A response with status 302, 303 or 307 makes the handler issue one more request, to
  the parts of the parsed \<^verbatim>\<open>Location\<close> value, carrying the current header table; its
  method is \<^verbatim>\<open>GET\<close> for 303 whatever the original method was, and the original method
  for 302 and 307. The redirect is not shown to the caller: ready state and events stay.
\<close>

theorem redirect_request_method:
  "statusCode resp \<in> {302, 303, 307} \<Longrightarrow>
   transport (responseHandler parse ssl s resp) =
     transport s @
       [TRequest
          \<lparr>o_protocol = JUndefined,
           o_hostname = hostname (parse (tget (r_headers resp) ''location'')),
           o_port = port (parse (tget (r_headers resp) ''location'')),
           o_path = path (parse (tget (r_headers resp) ''location'')),
           o_pathname = JUndefined, o_search = JUndefined, o_hash = JUndefined,
           o_method = (if statusCode resp = 303 then JStr ''GET'' else method (settings s)),
           o_headers = headers s, o_tls = ssl\<rparr>,
        TEnd (length (transport s))]
   \<and> readyState (responseHandler parse ssl s resp) = readyState s
   \<and> events (responseHandler parse ssl s resp) = events s"
  by (auto simp add: responseHandler_def is_redirect_def redirect_options_def doRequest_def transport_call_def
      request_end_def Let_def)

theorem redirect_request_method_witness:
  "method (settings post_exchange) = JStr ''POST''
   \<and> transport (responseHandler example_parse False post_exchange
        \<lparr>statusCode = 303, r_headers = [(''location'', JStr ''http://h/b'')]\<rparr>)
      = transport post_exchange @
          [TRequest
             \<lparr>o_protocol = JUndefined, o_hostname = JStr ''h'', o_port = JNull,
              o_path = JStr ''/b'', o_pathname = JUndefined, o_search = JUndefined,
              o_hash = JUndefined, o_method = JStr ''GET'',
              o_headers = headers post_exchange, o_tls = False\<rparr>,
           TEnd 2]
   \<and> transport (responseHandler example_parse False post_exchange
        \<lparr>statusCode = 307, r_headers = [(''location'', JStr ''http://h/b'')]\<rparr>)
      = transport post_exchange @
          [TRequest
             \<lparr>o_protocol = JUndefined, o_hostname = JStr ''h'', o_port = JNull,
              o_path = JStr ''/b'', o_pathname = JUndefined, o_search = JUndefined,
              o_hash = JUndefined, o_method = JStr ''POST'',
              o_headers = headers post_exchange, o_tls = False\<rparr>,
           TEnd 2]"
  using redirect_request_method [of "\<lparr>statusCode = 303, r_headers = [(''location'', JStr ''http://h/b'')]\<rparr>"
      example_parse False post_exchange]
    redirect_request_method [of "\<lparr>statusCode = 307, r_headers = [(''location'', JStr ''http://h/b'')]\<rparr>"
      example_parse False post_exchange]
  by (simp add: post_exchange_eval example_parse_def)

section \<open>Body chunks\<close>

text \<open>
  C2, as stated, fails. The object after \<^verbatim>\<open>open\<close>, \<^verbatim>\<open>send\<close>, a response with status
  200 and \<^verbatim>\<open>abort\<close> has its send flag cleared and an empty \<^verbatim>\<open>responseText\<close>; a chunk that
  arrives then is appended all the same.
\<close>

theorem late_chunk_counterexample:
  "\<not> sendFlag aborted_exchange \<and> responseText aborted_exchange = JStr []
   \<and> responseText (on_data aborted_exchange ''late'') = JStr ''late''"
  by (simp add: aborted_exchange_eval on_data_def Let_def)

text \<open>
  C2, as the code has it. A chunk that arrives while the send flag is cleared causes no
  transition and no event, but a chunk that is not empty is still appended to
  \<^verbatim>\<open>responseText\<close>. A chunk that arrives while the send flag is set is appended and
  leaves the object in \<^verbatim>\<open>LOADING\<close>, without any event when it was there already.
\<close>

theorem on_data_effect:
  "(\<not> sendFlag s \<longrightarrow>
      on_data s c = s\<lparr>responseText := (if c \<noteq> [] then JStr (to_string (responseText s) @ c)
                                         else responseText s)\<rparr>
      \<and> readyState (on_data s c) = readyState s \<and> events (on_data s c) = events s)
   \<and> (sendFlag s \<longrightarrow>
      readyState (on_data s c) = LOADING
      \<and> responseText (on_data s c) = (if c \<noteq> [] then JStr (to_string (responseText s) @ c)
                                        else responseText s)
      \<and> (readyState s = LOADING \<longrightarrow> events (on_data s c) = events s))"
  by (simp add: on_data_def Let_def setState_fields setState_events)

theorem on_data_effect_witness:
  "\<not> sendFlag aborted_exchange
   \<and> on_data aborted_exchange ''late'' = aborted_exchange\<lparr>responseText := JStr ''late''\<rparr>
   \<and> sendFlag sending_exchange
   \<and> readyState (on_data sending_exchange ''ab'') = LOADING
   \<and> responseText (on_data sending_exchange ''ab'') = JStr ''ab''
   \<and> sendFlag (on_data sending_exchange ''ab'')
   \<and> events (on_data (on_data sending_exchange ''ab'') ''cd'')
       = events (on_data sending_exchange ''ab'')"
proof -
  have a: "\<not> sendFlag aborted_exchange" "responseText aborted_exchange = JStr []"
    by (simp_all add: aborted_exchange_eval)
  have b: "sendFlag sending_exchange" "responseText sending_exchange = JStr []"
    by (simp_all add: sending_exchange_eval)
  have c: "sendFlag (on_data sending_exchange ''ab'')"
    using b by (simp add: on_data_def Let_def setState_fields)
  from on_data_effect [of aborted_exchange "''late''"] on_data_effect [of sending_exchange "''ab''"]
    on_data_effect [of "on_data sending_exchange ''ab''" "''cd''"] a b c
  show ?thesis by simp
qed

section \<open>Request headers\<close>

text \<open>
  C5, as stated, fails. Between \<^verbatim>\<open>send\<close> and the response the object is \<^verbatim>\<open>OPENED\<close>
  with its send flag set, so by the claim \<^verbatim>\<open>setRequestHeader\<close> has to throw; for a
  forbidden name it returns \<^verbatim>\<open>false\<close> instead, because the header check comes before
  the check of the send flag.
\<close>

theorem setRequestHeader_while_sending_counterexample:
  "readyState sending_exchange = OPENED \<and> sendFlag sending_exchange
   \<and> fst (setRequestHeader sending_exchange ''Cookie'' (JStr ''x'')) = Return (JBool False)"
  by (simp add: sending_exchange_eval eval_defs)

text \<open>
  C5, as the code has it. \<^verbatim>\<open>setRequestHeader\<close> checks in this order: outside
  \<^verbatim>\<open>OPENED\<close> it throws the invalid-state error; otherwise a forbidden name (compared in
  lower case) or an empty name, with the check enabled, is refused, with \<^verbatim>\<open>false\<close>
  returned, one warning and the header table unchanged, also while a send is in
  progress; otherwise it throws the
  invalid-state error when the send flag is set; otherwise \<^verbatim>\<open>true\<close> is returned and the
  header is stored under the name as given, except that the name \<^verbatim>\<open>__proto__\<close> stores no
  header in the plain \<^verbatim>\<open>headers\<close> object. After \<^verbatim>\<open>setDisableHeaderCheck(true)\<close> a
  forbidden name is accepted and stored as well.
\<close>

theorem setRequestHeader_cases:
  "(readyState s \<noteq> OPENED \<longrightarrow>
      setRequestHeader s h v
        = (Throw ''INVALID_STATE_ERR: setRequestHeader can only be called when state is OPEN'', s))
   \<and> (readyState s = OPENED \<and> \<not> truthy (disableHeaderCheck s)
        \<and> (h = [] \<or> toLowerCase h \<in> set forbiddenRequestHeaders) \<longrightarrow>
      fst (setRequestHeader s h v) = Return (JBool False)
      \<and> headers (snd (setRequestHeader s h v)) = headers s
      \<and> warnings (snd (setRequestHeader s h v))
           = warnings s @ [''Refused to set unsafe header '' @ [CHR 0x22] @ h @ [CHR 0x22]])
   \<and> (readyState s = OPENED \<and> sendFlag s
        \<and> (truthy (disableHeaderCheck s) \<or> h \<noteq> [] \<and> toLowerCase h \<notin> set forbiddenRequestHeaders) \<longrightarrow>
      setRequestHeader s h v = (Throw ''INVALID_STATE_ERR: send flag is true'', s))
   \<and> (readyState s = OPENED \<and> \<not> sendFlag s
        \<and> (truthy (disableHeaderCheck s) \<or> h \<noteq> [] \<and> toLowerCase h \<notin> set forbiddenRequestHeaders) \<longrightarrow>
      fst (setRequestHeader s h v) = Return (JBool True)
      \<and> (h \<noteq> ''__proto__'' \<longrightarrow> tget (headers (snd (setRequestHeader s h v))) h = v)
      \<and> (h = ''__proto__'' \<and> headers_plain s \<longrightarrow>
            headers (snd (setRequestHeader s h v)) = headers s))
   \<and> (readyState s = OPENED \<and> \<not> sendFlag s \<and> toLowerCase h \<in> set forbiddenRequestHeaders \<longrightarrow>
      fst (setRequestHeader (setDisableHeaderCheck s (JBool True)) h v) = Return (JBool True)
      \<and> tget (headers (snd (setRequestHeader (setDisableHeaderCheck s (JBool True)) h v))) h = v)"
  using toLowerCase_proto [of h]
  by (auto simp add: setRequestHeader_def isAllowedHttpHeader_def setDisableHeaderCheck_def
      assign_header_def tget_tset)

theorem setRequestHeader_cases_witness:
  "readyState new_xhr \<noteq> OPENED
   \<and> fst (setRequestHeader new_xhr ''Cookie'' (JStr ''x''))
       = Throw ''INVALID_STATE_ERR: setRequestHeader can only be called when state is OPEN''
   \<and> readyState opened_exchange = OPENED \<and> \<not> sendFlag opened_exchange
   \<and> \<not> truthy (disableHeaderCheck opened_exchange)
   \<and> toLowerCase ''Cookie'' \<in> set forbiddenRequestHeaders
   \<and> fst (setRequestHeader opened_exchange ''Cookie'' (JStr ''x'')) = Return (JBool False)
   \<and> headers (snd (setRequestHeader opened_exchange ''Cookie'' (JStr ''x''))) = defaultHeaders
   \<and> toLowerCase ''X-Token'' \<notin> set forbiddenRequestHeaders
   \<and> fst (setRequestHeader opened_exchange ''X-Token'' (JStr ''t'')) = Return (JBool True)
   \<and> tget (headers (snd (setRequestHeader opened_exchange ''X-Token'' (JStr ''t'')))) ''X-Token''
       = JStr ''t''
   \<and> tget (headers (snd (setRequestHeader (setDisableHeaderCheck opened_exchange (JBool True))
                               ''Cookie'' (JStr ''x'')))) ''Cookie'' = JStr ''x''
   \<and> toLowerCase ''__proto__'' \<notin> set forbiddenRequestHeaders \<and> headers_plain opened_exchange
   \<and> fst (setRequestHeader opened_exchange ''__proto__'' (JStr ''y'')) = Return (JBool True)
   \<and> headers (snd (setRequestHeader opened_exchange ''__proto__'' (JStr ''y''))) = defaultHeaders
   \<and> readyState sending_exchange = OPENED \<and> sendFlag sending_exchange
   \<and> fst (setRequestHeader sending_exchange ''X-Token'' (JStr ''t''))
       = Throw ''INVALID_STATE_ERR: send flag is true''"
proof -
  have n: "readyState new_xhr \<noteq> OPENED"
    by (simp add: new_xhr_def)
  have o: "readyState opened_exchange = OPENED" "\<not> sendFlag opened_exchange"
    "\<not> truthy (disableHeaderCheck opened_exchange)" "headers opened_exchange = defaultHeaders"
    "headers_plain opened_exchange"
    by (simp_all add: opened_exchange_eval defaultHeaders_def)
  have s: "readyState sending_exchange = OPENED" "sendFlag sending_exchange"
    "\<not> truthy (disableHeaderCheck sending_exchange)"
    by (simp_all add: sending_exchange_eval)
  have c: "toLowerCase ''Cookie'' \<in> set forbiddenRequestHeaders"
    by (simp add: lower_char_def forbiddenRequestHeaders_def)
  have x: "toLowerCase ''X-Token'' \<notin> set forbiddenRequestHeaders"
    by (simp add: lower_char_def forbiddenRequestHeaders_def)
  have y: "toLowerCase ''__proto__'' \<notin> set forbiddenRequestHeaders"
    by (simp add: lower_char_def forbiddenRequestHeaders_def)
  from setRequestHeader_cases [of new_xhr "''Cookie''" "JStr ''x''"]
    setRequestHeader_cases [of opened_exchange "''Cookie''" "JStr ''x''"]
    setRequestHeader_cases [of opened_exchange "''X-Token''" "JStr ''t''"]
    setRequestHeader_cases [of sending_exchange "''X-Token''" "JStr ''t''"]
    setRequestHeader_cases [of opened_exchange "''__proto__''" "JStr ''y''"]
    n o s c x y
  show ?thesis by simp
qed

section \<open>The Host header\<close>

text \<open>
  C6. The resolver \<^verbatim>\<open>Url.parse\<close> is taken to return the port as the URL library of Node
  does: as a string when the URL names a port, and as \<^verbatim>\<open>null\<close> or \<^verbatim>\<open>undefined\<close> when it
  names none. When \<^verbatim>\<open>send\<close> passes its state checks and the scheme is \<^verbatim>\<open>https:\<close>,
  \<^verbatim>\<open>http:\<close> or missing, the effective port \<open>p\<close> is the port of the URL when there is one
  and otherwise the number 443 for \<^verbatim>\<open>https:\<close> and the number 80 else. The \<^verbatim>\<open>Host\<close> header
  is the host name without a suffix when \<open>p\<close> is this default port of the scheme, and for
  any other port it is the host name, a colon and the port. An asynchronous send issues
  its request to port \<open>p\<close> with these headers.
\<close>

theorem send_host_header:
  assumes "readyState s = OPENED" and "\<not> sendFlag s"
    and "u = parse (url (settings s))"
    and "protocol u \<in> {JStr ''https:'', JStr ''http:'', JUndefined, JStr []}"
    and "ssl = (protocol u = JStr ''https:'')"
    and "port u = JUndefined \<or> port u = JNull \<or> (\<exists>digits. port u = JStr digits)"
    and "p = (if truthy (port u) then port u else JNum (if ssl then 443 else 80))"
  shows "tget (headers (snd (send parse s d))) ''Host''
           = (if p = JNum (if ssl then 443 else 80) then hostname u
              else JStr (to_string (hostname u) @ '':'' @ to_string (port u)))
         \<and> (truthy (async (settings s)) \<longrightarrow>
              (\<exists>opts rest. transport (snd (send parse s d)) = transport s @ TRequest opts # rest
                  \<and> o_port opts = p \<and> o_headers opts = headers (snd (send parse s d))))"
proof -
  have h: "headers (snd (send parse s d)) = headers (send_prepared ssl u s d)"
    using send_headers [of s parse d] assms by simp
  have ep: "effective_port ssl u = p"
    using assms(7) by (simp add: effective_port_def js_or_def)
  have d: "(ssl \<and> p = JNum 443) \<or> p = JNum 80 \<longleftrightarrow> p = JNum (if ssl then 443 else 80)"
    using assms(6,7) by auto
  have "tget (headers (snd (send parse s d))) ''Host'' = host_header ssl u"
    by (simp add: h send_prepared_Host)
  then have 1: "tget (headers (snd (send parse s d))) ''Host''
           = (if p = JNum (if ssl then 443 else 80) then hostname u
              else JStr (to_string (hostname u) @ '':'' @ to_string (port u)))"
    unfolding host_header_def ep d by simp
  have 2: "truthy (async (settings s)) \<longrightarrow>
              (\<exists>opts rest. transport (snd (send parse s d)) = transport s @ TRequest opts # rest
                  \<and> o_port opts = p \<and> o_headers opts = headers (snd (send parse s d)))"
    using send_request_port [of s parse d] assms(1,2,3,4,5) ep by simp
  from 1 2 show ?thesis by blast
qed

theorem send_host_header_witness:
  "readyState opened_exchange = OPENED \<and> \<not> sendFlag opened_exchange
   \<and> protocol (port8080_parse (url (settings opened_exchange))) = JStr ''http:''
   \<and> port (port8080_parse (url (settings opened_exchange))) = JStr ''8080''
   \<and> tget (headers (snd (send port8080_parse opened_exchange None))) ''Host'' = JStr ''h:8080''
   \<and> protocol (port80_parse (url (settings opened_exchange))) = JStr ''http:''
   \<and> port (port80_parse (url (settings opened_exchange))) = JStr ''80''
   \<and> tget (headers (snd (send port80_parse opened_exchange None))) ''Host'' = JStr ''h:80''
   \<and> protocol (example_parse (url (settings opened_exchange))) = JStr ''http:''
   \<and> port (example_parse (url (settings opened_exchange))) = JNull
   \<and> tget (headers (snd (send example_parse opened_exchange None))) ''Host'' = JStr ''h''
   \<and> transport (snd (send example_parse opened_exchange None)) = transport sending_exchange
   \<and> transport sending_exchange
       = [TRequest
            \<lparr>o_protocol = JStr ''http:'', o_hostname = JStr ''h'', o_port = JNum 80,
             o_path = JStr ''/a'', o_pathname = JStr ''/a'', o_search = JNull, o_hash = JNull,
             o_method = JStr ''GET'',
             o_headers = [(''User-Agent'', JStr ''node-XMLHttpRequest''), (''Accept'', JStr ''*/*''),
                          (''Host'', JStr ''h'')],
             o_tls = False\<rparr>,
          TEnd 0]"
proof -
  have o: "readyState opened_exchange = OPENED" "\<not> sendFlag opened_exchange"
    by (simp_all add: opened_exchange_eval)
  have p1: "protocol (port8080_parse (url (settings opened_exchange)))
              \<in> {JStr ''https:'', JStr ''http:'', JUndefined, JStr []}"
    by (simp add: port8080_parse_def)
  have q1: "port (port8080_parse (url (settings opened_exchange))) = JUndefined
            \<or> port (port8080_parse (url (settings opened_exchange))) = JNull
            \<or> (\<exists>digits. port (port8080_parse (url (settings opened_exchange))) = JStr digits)"
    by (simp add: port8080_parse_def)
  have p2: "protocol (example_parse (url (settings opened_exchange)))
              \<in> {JStr ''https:'', JStr ''http:'', JUndefined, JStr []}"
    by (simp add: example_parse_def)
  have q2: "port (example_parse (url (settings opened_exchange))) = JUndefined
            \<or> port (example_parse (url (settings opened_exchange))) = JNull
            \<or> (\<exists>digits. port (example_parse (url (settings opened_exchange))) = JStr digits)"
    by (simp add: example_parse_def)
  have p3: "protocol (port80_parse (url (settings opened_exchange)))
              \<in> {JStr ''https:'', JStr ''http:'', JUndefined, JStr []}"
    by (simp add: port80_parse_def)
  have q3: "port (port80_parse (url (settings opened_exchange))) = JUndefined
            \<or> port (port80_parse (url (settings opened_exchange))) = JNull
            \<or> (\<exists>digits. port (port80_parse (url (settings opened_exchange))) = JStr digits)"
    by (simp add: port80_parse_def)
  have t: "snd (send example_parse opened_exchange None) = sending_exchange"
    by (simp add: sending_exchange_def opened_exchange_def run_def)
  have t': "transport sending_exchange
       = [TRequest
            \<lparr>o_protocol = JStr ''http:'', o_hostname = JStr ''h'', o_port = JNum 80,
             o_path = JStr ''/a'', o_pathname = JStr ''/a'', o_search = JNull, o_hash = JNull,
             o_method = JStr ''GET'',
             o_headers = [(''User-Agent'', JStr ''node-XMLHttpRequest''), (''Accept'', JStr ''*/*''),
                          (''Host'', JStr ''h'')],
             o_tls = False\<rparr>,
          TEnd 0]"
    by (simp add: sending_exchange_eval)
  from send_host_header [where parse = port8080_parse and s = opened_exchange and d = None,
      OF o refl p1 refl q1 refl]
    send_host_header [where parse = port80_parse and s = opened_exchange and d = None,
      OF o refl p3 refl q3 refl]
    send_host_header [where parse = example_parse and s = opened_exchange and d = None,
      OF o refl p2 refl q2 refl] o t t'
  show ?thesis by (simp add: port8080_parse_def port80_parse_def example_parse_def)
qed

section \<open>The send flag\<close>

text \<open>
  C3. The claim holds for the end of the body and for \<^verbatim>\<open>abort\<close>, which clear the send
  flag before they move to \<^verbatim>\<open>DONE\<close>; \<^verbatim>\<open>handleError\<close> does not. After \<^verbatim>\<open>open\<close>,
  \<^verbatim>\<open>send\<close> and a transport error the object is in \<^verbatim>\<open>DONE\<close> with the send flag still
  set; the next \<^verbatim>\<open>open\<close>, whose \<^verbatim>\<open>abort\<close> skips an object in \<^verbatim>\<open>DONE\<close>, leaves it set, and
  the next \<^verbatim>\<open>send\<close> throws "send has already been called".
\<close>

theorem handleError_keeps_sendFlag:
  "readyState failed_exchange = DONE \<and> sendFlag failed_exchange
   \<and> readyState reopened_exchange = OPENED \<and> sendFlag reopened_exchange
   \<and> fst (send example_parse reopened_exchange None)
       = Throw ''INVALID_STATE_ERR: send has already been called''"
  by (simp add: failed_exchange_eval reopened_exchange_eval send_def)

section \<open>Synchronous mode\<close>

text \<open>
  Synchronous mode on an object whose send flag, if set, belongs to an exchange in
  progress. After an \<^verbatim>\<open>open\<close> with \<^verbatim>\<open>async\<close> set to \<^verbatim>\<open>false\<close>, \<^verbatim>\<open>send\<close> throws one of the
  three "not supported" errors, for every method, URL, resolver and body: the one for
  synchronous requests when the scheme is \<^verbatim>\<open>https:\<close>, \<^verbatim>\<open>http:\<close> or missing, and the one
  for the protocol or for local files otherwise. No call reaches the transport and the
  send flag stays cleared.
\<close>

lemma send_after_synchronous_open:
  assumes "sendFlag s0 \<longrightarrow> readyState s0 \<in> {OPENED, HEADERS_RECEIVED, LOADING}"
    and "open s0 m u (JBool False) usr pw = (Return (), s1)"
  shows "fst (send parse s1 d) \<in>
           {Throw ''Protocol not supported.'',
            Throw (''The '' @ [CHR 0x22] @ ''local'' @ [CHR 0x22] @ '' option is not supported on TItanium.''),
            Throw ''Synchronous requests are not supported in Titanium.''}
         \<and> (protocol (parse (JStr (to_string u))) \<in> {JStr ''https:'', JStr ''http:'', JUndefined, JStr []} \<longrightarrow>
              fst (send parse s1 d) = Throw ''Synchronous requests are not supported in Titanium.'')
         \<and> transport (snd (send parse s1 d)) = transport s1
         \<and> \<not> sendFlag (snd (send parse s1 d))"
proof -
  note o = open_Return [OF assms(2)]
  note nf = open_sendFlag [OF assms(1,2)]
  have as: "\<not> truthy (async (settings s1))" and ur: "url (settings s1) = JStr (to_string u)"
    using o(2) by simp_all
  note r = send_sync_result [OF o(1) nf as, of parse d]
  have 1: "fst (send parse s1 d) \<in>
           {Throw ''Protocol not supported.'',
            Throw (''The '' @ [CHR 0x22] @ ''local'' @ [CHR 0x22] @ '' option is not supported on TItanium.''),
            Throw ''Synchronous requests are not supported in Titanium.''}"
  proof (cases "determine_server (parse (url (settings s1)))")
    case (Inl e)
    with determine_server_Inl [OF Inl] r show ?thesis by simp
  next
    case (Inr t)
    with r show ?thesis by (cases t) auto
  qed
  have 2: "protocol (parse (JStr (to_string u))) \<in> {JStr ''https:'', JStr ''http:'', JUndefined, JStr []} \<longrightarrow>
              fst (send parse s1 d) = Throw ''Synchronous requests are not supported in Titanium.''"
  proof
    assume "protocol (parse (JStr (to_string u))) \<in> {JStr ''https:'', JStr ''http:'', JUndefined, JStr []}"
    then have p: "protocol (parse (url (settings s1))) \<in> {JStr ''https:'', JStr ''http:'', JUndefined, JStr []}"
      by (simp add: ur)
    from determine_server_supported [OF p] obtain host where
      "determine_server (parse (url (settings s1)))
           = Inr (protocol (parse (url (settings s1))) = JStr ''https:'', False, host)" ..
    with r show "fst (send parse s1 d) = Throw ''Synchronous requests are not supported in Titanium.''"
      by simp
  qed
  from 1 2 r show ?thesis by blast
qed

text \<open>
  C9. The claim is right for every object that \<^verbatim>\<open>handleError\<close> has not touched, but the
  code breaks it on the trace of C3. After \<^verbatim>\<open>open\<close>, \<^verbatim>\<open>send\<close> and a transport error the
  send flag is still set; \<^verbatim>\<open>open\<close> with \<^verbatim>\<open>async\<close> set to \<^verbatim>\<open>false\<close> returns and leaves it
  set; and \<^verbatim>\<open>send\<close> then throws "send has already been called", not a "not supported"
  error, and leaves the object with its send flag set.
\<close>

theorem synchronous_send_after_error:
  "readyState failed_exchange = DONE \<and> sendFlag failed_exchange
   \<and> readyState sync_reopened = OPENED \<and> async (settings sync_reopened) = JBool False
   \<and> send example_parse sync_reopened None
       = (Throw ''INVALID_STATE_ERR: send has already been called'', sync_reopened)
   \<and> sendFlag sync_reopened"
  by (simp add: failed_exchange_eval sync_reopened_eval send_def)

section \<open>Basic authentication\<close>

text \<open>
  C10. When \<^verbatim>\<open>open\<close> gets a user and no password, it stores \<^verbatim>\<open>null\<close> as the password.
  The test for an \<^verbatim>\<open>undefined\<close> password in \<^verbatim>\<open>send\<close> therefore does not apply, the
  password is still \<^verbatim>\<open>null\<close> after \<^verbatim>\<open>send\<close>, and the \<^verbatim>\<open>Authorization\<close> header is
  \<^verbatim>\<open>Basic\<close>, a space, the user, and \<^verbatim>\<open>:null\<close>. This is for a \<^verbatim>\<open>send\<close> that passes its
  state checks and finds a scheme it supports.
\<close>

theorem authorization_null_password:
  assumes "sendFlag s0 \<longrightarrow> readyState s0 \<in> {OPENED, HEADERS_RECEIVED, LOADING}"
    and "open s0 m u a usr JUndefined = (Return (), s1)"
    and "truthy usr"
    and "protocol (parse (url (settings s1))) \<in> {JStr ''https:'', JStr ''http:'', JUndefined, JStr []}"
  shows "password (settings s1) = JNull
         \<and> password (settings (snd (send parse s1 d))) = JNull
         \<and> tget (headers (snd (send parse s1 d))) ''Authorization''
             = JStr (''Basic '' @ to_string usr @ '':null'')"
proof -
  note o = open_Return [OF assms(2)]
  note nf = open_sendFlag [OF assms(1,2)]
  have pw: "password (settings s1) = JNull" and us: "user (settings s1) = usr"
    using o(2) assms(3) by (simp_all add: js_or_def)
  have h: "headers (snd (send parse s1 d))
             = headers (send_prepared (protocol (parse (url (settings s1))) = JStr ''https:'')
                          (parse (url (settings s1))) s1 d)"
    using send_headers [of s1 parse d] o(1) nf assms(4) by simp
  have a: "tget (headers (snd (send parse s1 d))) ''Authorization''
             = JStr (''Basic '' @ to_string usr @ '':null'')"
    using send_prepared_Authorization [of s1] pw us assms(3) by (simp add: h)
  have "settings (snd (send parse s1 d)) = settings s1"
    using send_settings [of s1 parse d] pw by simp
  with pw a show ?thesis by simp
qed

theorem authorization_null_password_witness:
  "\<not> sendFlag new_xhr
   \<and> open new_xhr (JStr ''GET'') (JStr ''http://h/a'') JUndefined (JStr ''bob'') JUndefined
       = (Return (), auth_opened)
   \<and> truthy (JStr ''bob'')
   \<and> protocol (example_parse (url (settings auth_opened))) = JStr ''http:''
   \<and> password (settings auth_opened) = JNull
   \<and> tget (headers (snd (send example_parse auth_opened None))) ''Authorization''
       = JStr ''Basic bob:null''"
proof -
  have n: "\<not> sendFlag new_xhr"
    by (simp add: new_xhr_def)
  then have i: "sendFlag new_xhr \<longrightarrow> readyState new_xhr \<in> {OPENED, HEADERS_RECEIVED, LOADING}"
    by simp
  have o: "open new_xhr (JStr ''GET'') (JStr ''http://h/a'') JUndefined (JStr ''bob'') JUndefined
             = (Return (), auth_opened)"
    by (simp add: auth_opened_eval eval_defs)
  have t: "truthy (JStr ''bob'')"
    by simp
  have p: "protocol (example_parse (url (settings auth_opened)))
             \<in> {JStr ''https:'', JStr ''http:'', JUndefined, JStr []}"
    by (simp add: example_parse_def)
  from authorization_null_password [where parse = example_parse and d = None, OF i o t p] n o t
  show ?thesis by (simp add: example_parse_def)
qed

section \<open>The settings record\<close>

text \<open>
  C7, as stated, fails. Following a redirect overwrites the \<^verbatim>\<open>url\<close> field: after
  \<^verbatim>\<open>open\<close> with \<^verbatim>\<open>http://h/a\<close> and \<^verbatim>\<open>send\<close> the field holds that URL, and after a
  response with status 302 and \<^verbatim>\<open>Location: http://h/b\<close> it holds the new one.
\<close>

theorem redirect_changes_url_counterexample:
  "url (settings sending_exchange) = JStr ''http://h/a''
   \<and> responseHandler example_parse False sending_exchange found_response = redirected_exchange
   \<and> url (settings redirected_exchange) = JStr ''http://h/b''"
  by (simp add: sending_exchange_eval redirected_exchange_eval eval_defs)

text \<open>
  C7, as the code has it. On an object reached from the constructor by any sequence of
  calls, \<^verbatim>\<open>open\<close> that returns sets all five fields of the settings record, and an
  \<^verbatim>\<open>open\<close> that throws leaves them; a response with status 302, 303 or 307 replaces the
  \<^verbatim>\<open>url\<close> field by the \<^verbatim>\<open>Location\<close> header and leaves the other four fields; and
  \<^verbatim>\<open>send\<close>, \<^verbatim>\<open>abort\<close>, \<^verbatim>\<open>setRequestHeader\<close>, \<^verbatim>\<open>setDisableHeaderCheck\<close>, any other response,
  a body chunk, the end of the body and a transport error leave the record unchanged.
\<close>

theorem settings_changed_by_open_and_redirect_only:
  assumes "s = run parse new_xhr cs"
  shows "settings (snd (send parse s d)) = settings s
         \<and> settings (abort s) = settings s
         \<and> settings (snd (setRequestHeader s h v)) = settings s
         \<and> settings (setDisableHeaderCheck s b) = settings s
         \<and> settings (on_data s c) = settings s
         \<and> settings (on_end s) = settings s
         \<and> settings (handleError s e) = settings s
         \<and> (statusCode resp \<notin> {302, 303, 307} \<longrightarrow>
              settings (responseHandler parse ssl s resp) = settings s)
         \<and> (statusCode resp \<in> {302, 303, 307} \<longrightarrow>
              settings (responseHandler parse ssl s resp)
                = (settings s)\<lparr>url := tget (r_headers resp) ''location''\<rparr>)
         \<and> (fst (open s m u a usr pw) = Return () \<longrightarrow>
              settings (snd (open s m u a usr pw))
                = \<lparr>method = m, url = JStr (to_string u),
                   async = (case a of JBool b \<Rightarrow> JBool b | _ \<Rightarrow> JBool True),
                   user = js_or usr JNull, password = js_or pw JNull\<rparr>)
         \<and> (fst (open s m u a usr pw) \<noteq> Return () \<longrightarrow>
              settings (snd (open s m u a usr pw)) = settings s)"
proof -
  have "settings (snd (send parse s d)) = settings s"
    using run_password [of parse cs] send_settings [of s parse d] assms by blast
  moreover have "statusCode resp \<notin> {302, 303, 307} \<longrightarrow>
              settings (responseHandler parse ssl s resp) = settings s"
    using responseHandler_fields(5) [of resp parse ssl s] by (simp add: is_redirect_def)
  moreover have "statusCode resp \<in> {302, 303, 307} \<longrightarrow>
              settings (responseHandler parse ssl s resp)
                = (settings s)\<lparr>url := tget (r_headers resp) ''location''\<rparr>"
    using responseHandler_redirect_fields(2) [of resp parse ssl s] by (simp add: is_redirect_def)
  ultimately show ?thesis
    by (simp add: abort_fields setRequestHeader_fields setDisableHeaderCheck_def on_data_fields
        on_end_fields handleError_fields open_fields)
qed

theorem settings_changed_by_open_and_redirect_only_witness:
  "sending_exchange = run example_parse new_xhr [example_open, Send None]
   \<and> settings (snd (send example_parse sending_exchange None)) = settings sending_exchange
   \<and> settings (abort sending_exchange) = settings sending_exchange
   \<and> statusCode ok_response \<notin> {302, 303, 307}
   \<and> settings (responseHandler example_parse False sending_exchange ok_response)
       = settings sending_exchange
   \<and> statusCode found_response \<in> {302, 303, 307}
   \<and> settings (responseHandler example_parse False sending_exchange found_response)
       = \<lparr>method = JStr ''GET'', url = JStr ''http://h/b'', async = JBool True,
          user = JNull, password = JNull\<rparr>
   \<and> fst (open sending_exchange (JStr ''POST'') (JStr ''http://h/b'') (JBool True) JNull JNull)
       = Return ()
   \<and> settings (snd (open sending_exchange (JStr ''POST'') (JStr ''http://h/b'') (JBool True) JNull JNull))
       = \<lparr>method = JStr ''POST'', url = JStr ''http://h/b'', async = JBool True,
          user = JNull, password = JNull\<rparr>
   \<and> fst (open sending_exchange (JStr ''TRACE'') (JStr ''http://h/b'') (JBool True) JNull JNull)
       \<noteq> Return ()
   \<and> settings (snd (open sending_exchange (JStr ''TRACE'') (JStr ''http://h/b'') (JBool True) JNull JNull))
       = settings sending_exchange"
proof -
  have r: "sending_exchange = run example_parse new_xhr [example_open, Send None]"
    by (simp add: sending_exchange_def)
  have k: "statusCode ok_response = 200" "statusCode found_response = 302"
    "tget (r_headers found_response) ''location'' = JStr ''http://h/b''"
    by (simp_all add: ok_response_def found_response_def)
  have g: "settings sending_exchange
             = \<lparr>method = JStr ''GET'', url = JStr ''http://h/a'', async = JBool True,
                user = JNull, password = JNull\<rparr>"
    by (simp add: sending_exchange_eval)
  have p: "fst (open sending_exchange (JStr ''POST'') (JStr ''http://h/b'') (JBool True) JNull JNull)
             = Return ()"
    by (simp add: open_def isAllowedHttpMethod_def forbiddenRequestMethods_def Let_def)
  have q: "fst (open sending_exchange (JStr ''TRACE'') (JStr ''http://h/b'') (JBool True) JNull JNull)
             \<noteq> Return ()"
    by (simp add: open_def isAllowedHttpMethod_def forbiddenRequestMethods_def Let_def)
  from settings_changed_by_open_and_redirect_only [OF r, where resp = ok_response and ssl = False
      and m = "JStr ''POST''" and u = "JStr ''http://h/b''" and a = "JBool True" and usr = JNull
      and pw = JNull and d = None and h = "[]" and v = JNull and b = JNull and c = "[]"
      and e = example_error]
    settings_changed_by_open_and_redirect_only [OF r, where resp = found_response and ssl = False
      and m = "JStr ''TRACE''" and u = "JStr ''http://h/b''" and a = "JBool True" and usr = JNull
      and pw = JNull and d = None and h = "[]" and v = JNull and b = JNull and c = "[]"
      and e = example_error]
    r k g p q
  show ?thesis by (simp add: js_or_def)
qed

end
